theory Spec2Isabelle
  imports Complex_Main "HOL-Library.Product_Lexorder" "HOL-Library.List_Lexorder" "HOL-Library.Char_ord"
begin

section \<open>Values of the data frames\<close>

text \<open>
  The program keeps its ledger in pandas data frames.  A frame is modelled as the list of
  its rows, in row order; a row is a record of the columns that the source reads or writes.
  A float64 cell is a value of \<open>float64\<close>: a real number, one of the two infinities or
  NaN (the missing-value marker of pandas).  The arithmetic below follows IEEE 754 on these
  four kinds of value; rounding, overflow and the sign of zero are not modelled (a zero
  divisor counts as +0.0).
\<close>

datatype float64 = Num real | PosInf | NegInf | NaN

fun isna :: "float64 \<Rightarrow> bool" where
  "isna NaN = True"
| "isna _ = False"

fun fneg :: "float64 \<Rightarrow> float64" where
  "fneg (Num a) = Num (- a)"
| "fneg PosInf = NegInf"
| "fneg NegInf = PosInf"
| "fneg NaN = NaN"

fun fmul :: "float64 \<Rightarrow> float64 \<Rightarrow> float64" where
  "fmul NaN _ = NaN"
| "fmul _ NaN = NaN"
| "fmul (Num a) (Num b) = Num (a * b)"
| "fmul (Num a) PosInf = (if a = 0 then NaN else if 0 < a then PosInf else NegInf)"
| "fmul (Num a) NegInf = (if a = 0 then NaN else if 0 < a then NegInf else PosInf)"
| "fmul PosInf (Num b) = (if b = 0 then NaN else if 0 < b then PosInf else NegInf)"
| "fmul NegInf (Num b) = (if b = 0 then NaN else if 0 < b then NegInf else PosInf)"
| "fmul PosInf PosInf = PosInf"
| "fmul PosInf NegInf = NegInf"
| "fmul NegInf PosInf = NegInf"
| "fmul NegInf NegInf = PosInf"

fun fdiv :: "float64 \<Rightarrow> float64 \<Rightarrow> float64" where
  "fdiv NaN _ = NaN"
| "fdiv _ NaN = NaN"
| "fdiv (Num a) (Num b) =
     (if b = 0 then (if a = 0 then NaN else if 0 < a then PosInf else NegInf)
      else Num (a / b))"
| "fdiv (Num a) PosInf = Num 0"
| "fdiv (Num a) NegInf = Num 0"
| "fdiv PosInf (Num b) = (if 0 \<le> b then PosInf else NegInf)"
| "fdiv NegInf (Num b) = (if 0 \<le> b then NegInf else PosInf)"
| "fdiv PosInf PosInf = NaN"
| "fdiv PosInf NegInf = NaN"
| "fdiv NegInf PosInf = NaN"
| "fdiv NegInf NegInf = NaN"

fun fadd :: "float64 \<Rightarrow> float64 \<Rightarrow> float64" where
  "fadd NaN _ = NaN"
| "fadd _ NaN = NaN"
| "fadd (Num a) (Num b) = Num (a + b)"
| "fadd (Num a) PosInf = PosInf"
| "fadd (Num a) NegInf = NegInf"
| "fadd PosInf (Num b) = PosInf"
| "fadd NegInf (Num b) = NegInf"
| "fadd PosInf PosInf = PosInf"
| "fadd NegInf NegInf = NegInf"
| "fadd PosInf NegInf = NaN"
| "fadd NegInf PosInf = NaN"

text \<open>Comparison: every comparison with NaN is false.\<close>

fun flt :: "float64 \<Rightarrow> float64 \<Rightarrow> bool" where
  "flt NaN _ = False"
| "flt _ NaN = False"
| "flt (Num a) (Num b) = (a < b)"
| "flt (Num a) PosInf = True"
| "flt (Num a) NegInf = False"
| "flt PosInf _ = False"
| "flt NegInf NegInf = False"
| "flt NegInf _ = True"

definition fgt :: "float64 \<Rightarrow> float64 \<Rightarrow> bool" where
  "fgt a b = flt b a"

definition feq :: "float64 \<Rightarrow> float64 \<Rightarrow> bool" where
  "feq a b = (a \<noteq> NaN \<and> b \<noteq> NaN \<and> a = b)"

text \<open>\<open>Series.fillna(v)\<close> on one cell.\<close>

definition fillna :: "float64 \<Rightarrow> float64 \<Rightarrow> float64" where
  "fillna v x = (if isna x then v else x)"

text \<open>
  \<open>Series.min()\<close> skips NaN and is NaN when nothing is left; \<open>fmin2\<close> is the minimum of two
  values that are not NaN.
\<close>

definition fmin2 :: "float64 \<Rightarrow> float64 \<Rightarrow> float64" where
  "fmin2 a b = (if flt b a then b else a)"

definition series_min :: "float64 list \<Rightarrow> float64" where
  "series_min xs =
     (case filter (\<lambda>x. \<not> isna x) xs of [] \<Rightarrow> NaN | y # ys \<Rightarrow> foldl fmin2 y ys)"

text \<open>\<open>Series.sum()\<close> skips NaN; the sum of no value is 0.\<close>

definition series_sum :: "float64 list \<Rightarrow> float64" where
  "series_sum xs = foldl fadd (Num 0) (filter (\<lambda>x. \<not> isna x) xs)"

section \<open>Dropping duplicates\<close>

text \<open>
  \<open>drop_duplicates(keep='first')\<close> and \<open>~index.duplicated(keep='first')\<close> keep a row when no
  earlier row has the same key: the whole row, a subset of its columns, or its index.
  \<open>keep_first key seen rows\<close> walks the rows with the set of the keys already seen.
\<close>

fun keep_first :: "('a \<Rightarrow> 'k) \<Rightarrow> 'k set \<Rightarrow> 'a list \<Rightarrow> 'a list" where
  "keep_first key seen [] = []"
| "keep_first key seen (x # xs) =
     (if key x \<in> seen then keep_first key seen xs
      else x # keep_first key (insert (key x) seen) xs)"

definition drop_duplicates :: "'a list \<Rightarrow> 'a list" where
  "drop_duplicates rows = keep_first (\<lambda>r. r) {} rows"

definition drop_duplicates_subset :: "('a \<Rightarrow> 'k) \<Rightarrow> 'a list \<Rightarrow> 'a list" where
  "drop_duplicates_subset key rows = keep_first key {} rows"

section \<open>The ledger\<close>

text \<open>
  A trade row.  \<open>Hash\<close> is the index of the trades frame (\<open>normalize_trades\<close> sets it from
  \<open>hash_row\<close>).  \<open>Date_Time\<close> is a timestamp in seconds.  String columns that may hold
  no value are options; \<open>Manual\<close> is \<open>None\<close> where the cell is missing.
\<close>

record trade =
  Hash :: string
  Symbol :: string
  Date_Time :: int
  Quantity :: float64
  T_Price :: float64
  Orig_Quantity :: float64
  Orig_T_Price :: float64
  Split_Ratio :: float64
  Action :: "string option"
  Type :: "string option"
  Account :: "string option"
  Target :: "string option"
  Ticker :: "string option"
  Display_Suffix :: string
  Display_Name :: "string option"
  Accumulated_Quantity :: float64
  Account_Accumulated_Quantity :: float64
  Manual :: "bool option"

text \<open>
  The trades frame: its rows, and whether it has the two columns whose presence the source
  tests (\<open>'Split Ratio' not in trades.columns\<close>, \<open>'Target' in trades.columns\<close>).
\<close>

record trades_frame =
  has_Split_Ratio :: bool
  has_Target :: bool
  rows :: "trade list"

definition empty_frame :: trades_frame where
  "empty_frame = \<lparr>has_Split_Ratio = False, has_Target = False, rows = []\<rparr>"

text \<open>\<open>pd.concat([a, b])\<close>: the rows of both, the columns of both.\<close>

definition concat_frames :: "trades_frame \<Rightarrow> trades_frame \<Rightarrow> trades_frame" where
  "concat_frames a b =
     \<lparr>has_Split_Ratio = (has_Split_Ratio a \<or> has_Split_Ratio b),
      has_Target = (has_Target a \<or> has_Target b),
      rows = rows a @ rows b\<rparr>"

record corporate_action =
  act_Symbol :: "string option"
  act_Date_Time :: int
  act_Action :: string
  act_Ratio :: float64
  act_Target :: "string option"
  act_Quantity :: float64
  act_Proceeds :: float64
  act_Value :: float64

record position =
  pos_Symbol :: string
  pos_Date :: int
  pos_Account :: "string option"
  pos_Quantity :: float64
  pos_Split_Ratio :: float64
  pos_Ticker :: "string option"

record dividend =
  div_Symbol :: string
  div_Date :: int
  div_Amount :: float64
  div_Currency :: "string option"
  div_Ticker :: "string option"

text \<open>A row of the symbols table; \<open>sym_Symbol\<close> is its index.\<close>

record symbol_entry =
  sym_Symbol :: string
  sym_Ticker :: string
  sym_Change_Date :: "int option"
  sym_Currency :: "string option"
  sym_Manual :: "bool option"

record import_entry =
  imp_Account :: string
  imp_From :: int
  imp_To :: int
  imp_Trade_Count :: nat

text \<open>
  A taxable pair, as far as merging needs it: the time the pair is dated at.
\<close>

record pair =
  pair_Date :: int
  pair_Open_Hash :: string
  pair_Close_Hash :: string
  pair_Quantity :: real

record State =
  trades :: trades_frame
  actions :: "corporate_action list"
  positions :: "position list"
  dividends :: "dividend list"
  symbols :: "symbol_entry list"
  imports' :: "import_entry list"
  pairings :: "pair list"

section \<open>Merging\<close>

text \<open>
  \<open>merge_trades(existing, new)\<close> of \<open>trade.py\<close>.  \<open>existing\<close> may be Python's \<open>None\<close>.
\<close>

definition merge_trades :: "trades_frame option \<Rightarrow> trades_frame \<Rightarrow> trades_frame" where
  "merge_trades existing new =
     (case existing of
        None \<Rightarrow> new
      | Some ex \<Rightarrow>
          if length (rows new) = 0 then ex
          else (let merged = concat_frames ex new
                in merged\<lparr>rows := keep_first Hash {} (rows merged)\<rparr>))"

text \<open>
  Modelled from the spec: \<open>Pairings.invalidate_pairs\<close> (module \<open>pairing\<close> is not among the
  sources).  The spec: all pairs dated at or after the given timestamp are discarded.  The
  argument is the minimum of a column, which is missing (\<open>None\<close>) for an empty column; a
  comparison with a missing time is false, so nothing is discarded then.
\<close>

definition invalidate_pairs :: "int option \<Rightarrow> pair list \<Rightarrow> pair list" where
  "invalidate_pairs t ps =
     (case t of None \<Rightarrow> ps | Some t0 \<Rightarrow> filter (\<lambda>p. pair_Date p < t0) ps)"

text \<open>\<open>trades['Date/Time'].min()\<close>.\<close>

definition min_Date_Time :: "trade list \<Rightarrow> int option" where
  "min_Date_Time ts = (case ts of [] \<Rightarrow> None | t # ts' \<Rightarrow> Some (foldl min (Date_Time t) (map Date_Time ts')))"

text \<open>
  \<open>State.merge_with(self, other, drop_pairings)\<close> of \<open>data.py\<close>: the new state of \<open>self\<close>
  and the returned count.
\<close>

definition merge_with :: "State \<Rightarrow> State \<Rightarrow> bool \<Rightarrow> State \<times> int" where
  "merge_with self other drop_pairings =
     (let imports1 = drop_duplicates (imports' self @ imports' other);
          actions1 = (if length (actions other) > 0 then actions other @ actions self
                      else actions self);
          positions1 = drop_duplicates_subset (\<lambda>p. (pos_Symbol p, pos_Date p))
                         (positions other @ positions self);
          before = int (length (rows (trades self)));
          trades1 = merge_trades (Some (trades other)) (trades self);
          dividends1 = drop_duplicates (dividends self @ dividends other);
          symbols1 = symbols self @ symbols other;
          imported_count = int (length (rows trades1)) - before;
          pairings1 = (if imported_count > 0 \<and> drop_pairings
                       then invalidate_pairs (min_Date_Time (rows (trades other))) (pairings self)
                       else if \<not> drop_pairings then pairings other
                       else pairings self)
      in (\<lparr>trades = trades1, actions = actions1, positions = positions1,
           dividends = dividends1, symbols = symbols1, imports' = imports1,
           pairings = pairings1\<rparr>, imported_count))"

text \<open>\<open>State.reset\<close>: the state of a new ledger.\<close>

definition reset :: State where
  "reset = \<lparr>trades = empty_frame, actions = [], positions = [], dividends = [],
            symbols = [], imports' = [], pairings = []\<rparr>"

definition imported_trade :: "string \<Rightarrow> string \<Rightarrow> int \<Rightarrow> real \<Rightarrow> real \<Rightarrow> trade" where
  "imported_trade h s t q p =
     \<lparr>Hash = h, Symbol = s, Date_Time = t, Quantity = Num q, T_Price = Num p,
      Orig_Quantity = Num q, Orig_T_Price = Num p, Split_Ratio = NaN,
      Action = Some ''Open'', Type = Some ''Long'', Account = Some ''U1'', Target = None,
      Ticker = None, Display_Suffix = [], Display_Name = None,
      Accumulated_Quantity = NaN, Account_Accumulated_Quantity = NaN, Manual = Some False\<rparr>"

definition frame_of :: "trade list \<Rightarrow> trades_frame" where
  "frame_of ts = \<lparr>has_Split_Ratio = False, has_Target = False, rows = ts\<rparr>"

subsection \<open>Example ledgers\<close>

text \<open>
  \<open>imported_trade\<close> is a buy as \<open>normalize_trades\<close> leaves it (the original quantity and
  price are copies of the quantity and price, nothing derived is computed yet).
\<close>

definition ex_pair :: "int \<Rightarrow> pair" where
  "ex_pair t = \<lparr>pair_Date = t, pair_Open_Hash = ''h1'', pair_Close_Hash = ''h2'', pair_Quantity = 1\<rparr>"

definition ledger_A :: State where
  "ledger_A = reset\<lparr>trades := frame_of [imported_trade ''h1'' ''AAPL'' 100 10 50,
                                           imported_trade ''h2'' ''AAPL'' 200 (-10) 60],
                     pairings := [ex_pair 150, ex_pair 400]\<rparr>"

definition ledger_B :: State where
  "ledger_B = reset\<lparr>trades := frame_of [imported_trade ''h2'' ''AAPL'' 200 (-10) 60,
                                           imported_trade ''h3'' ''AAPL'' 300 5 70],
                     actions := [\<lparr>act_Symbol = Some ''AAPL'', act_Date_Time = 250,
                                  act_Action = ''Split'', act_Ratio = Num (1/2), act_Target = None,
                                  act_Quantity = Num 0, act_Proceeds = Num 0, act_Value = Num 0\<rparr>],
                     symbols := [\<lparr>sym_Symbol = ''AAPL'', sym_Ticker = ''AAPL'',
                                  sym_Change_Date = None, sym_Currency = Some ''USD'',
                                  sym_Manual = None\<rparr>]\<rparr>"

text \<open>
  A ledger that already holds trade \<open>h1\<close>, with its derived columns computed (a 2-for-1
  split applied), and a freshly imported statement that reports the same trade again.
\<close>

definition held_copy :: trade where
  "held_copy = (imported_trade ''h1'' ''AAPL'' 100 10 50)
                 \<lparr>Quantity := Num 20, T_Price := Num 25, Split_Ratio := Num 2,
                  Ticker := Some ''AAPL''\<rparr>"

definition ledger_old :: State where
  "ledger_old = reset\<lparr>trades := \<lparr>has_Split_Ratio = True, has_Target = False,
                                     rows = [held_copy]\<rparr>\<rparr>"

definition ledger_new :: State where
  "ledger_new = reset\<lparr>trades := frame_of [imported_trade ''h1'' ''AAPL'' 100 10 50]\<rparr>"


subsection \<open>Facts about dropping duplicates\<close>


lemma keep_first_append:
  "keep_first key S (xs @ ys) = keep_first key S xs @ keep_first key (S \<union> key ` set xs) ys"
proof (induction xs arbitrary: S)
  case Nil
  show ?case by simp
next
  case (Cons x xs)
  show ?case
  proof (cases "key x \<in> S")
    case True
    then have "S \<union> key ` set (x # xs) = S \<union> key ` set xs" by auto
    with True Cons show ?thesis by simp
  next
    case False
    have "S \<union> key ` set (x # xs) = insert (key x) S \<union> key ` set xs" by auto
    with False Cons show ?thesis by simp
  qed
qed

lemma keys_keep_first: "key ` set (keep_first key S xs) = key ` set xs - S"
  by (induction xs arbitrary: S) auto

lemma set_keep_first_subset: "set (keep_first key S xs) \<subseteq> set xs"
  by (induction xs arbitrary: S) auto

lemma keep_first_all_seen: "key ` set xs \<subseteq> S \<Longrightarrow> keep_first key S xs = []"
  by (induction xs arbitrary: S) auto

lemma distinct_keep_first: "distinct (map key (keep_first key S xs))"
proof (induction xs arbitrary: S)
  case Nil
  show ?case by simp
next
  case (Cons x xs)
  have "key x \<notin> key ` set (keep_first key (insert (key x) S) xs)"
    by (simp add: keys_keep_first)
  with Cons show ?case by auto
qed

lemma keep_first_id:
  "distinct (map key xs) \<Longrightarrow> key ` set xs \<inter> S = {} \<Longrightarrow> keep_first key S xs = xs"
  by (induction xs arbitrary: S) auto


lemma keep_first_keep_first:
  "S \<subseteq> S' \<Longrightarrow> keep_first key S (keep_first key S' xs) = keep_first key S' xs"
  by (rule keep_first_id) (auto simp: distinct_keep_first keys_keep_first)

lemma keep_first_idem:
  "keep_first key {} (ys @ keep_first key {} (ys @ xs)) = keep_first key {} (ys @ xs)"
proof -
  let ?K = "key ` set ys"
  have a: "keep_first key ?K (keep_first key {} ys) = []"
    by (rule keep_first_all_seen) (simp add: keys_keep_first)
  have b: "keep_first key (?K \<union> key ` set (keep_first key {} ys)) (keep_first key ?K xs)
             = keep_first key ?K xs"
    by (rule keep_first_id) (auto simp: distinct_keep_first keys_keep_first)
  show ?thesis
    by (simp add: keep_first_append a b)
qed

lemma keep_first_idem_rev:
  "keep_first key {} (keep_first key {} (xs @ ys) @ ys) = keep_first key {} (xs @ ys)"
proof -
  have a: "keep_first key {} (keep_first key {} (xs @ ys)) = keep_first key {} (xs @ ys)"
    by (rule keep_first_keep_first) simp
  have b: "keep_first key (key ` set (keep_first key {} (xs @ ys))) ys = []"
    by (rule keep_first_all_seen) (auto simp: keys_keep_first)
  show ?thesis
    by (simp add: keep_first_append[of key "{}" "keep_first key {} (xs @ ys)"] a b)
qed

lemma keep_first_nonempty: "xs \<noteq> [] \<Longrightarrow> keep_first key {} xs \<noteq> []"
  by (cases xs) auto






subsection \<open>Facts about merging\<close>

lemma merge_trades_twice:
  assumes "rows tA \<noteq> [] \<or> distinct (map Hash (rows tB))"
  shows "merge_trades (Some tB) (merge_trades (Some tB) tA) = merge_trades (Some tB) tA"
proof (cases "rows tA = []")
  case True
  with assms have d: "distinct (map Hash (rows tB))" by simp
  have kf: "keep_first Hash {} (rows tB @ rows tB) = rows tB"
    using d by (simp add: keep_first_append keep_first_id keep_first_all_seen)
  show ?thesis
    using True by (simp add: merge_trades_def concat_frames_def Let_def kf)
next
  case False
  then have ne: "keep_first Hash {} (rows tB @ rows tA) \<noteq> []"
    by (intro keep_first_nonempty) simp
  show ?thesis
    using False ne by (simp add: merge_trades_def concat_frames_def Let_def keep_first_idem)
qed

lemma merge_with_trades:
  "trades (fst (merge_with A B d)) = merge_trades (Some (trades B)) (trades A)"
  by (simp add: merge_with_def Let_def)

lemma merge_with_count:
  "snd (merge_with A B d) =
     int (length (rows (merge_trades (Some (trades B)) (trades A)))) - int (length (rows (trades A)))"
  by (simp add: merge_with_def Let_def)

lemma merge_trades_rows:
  "rows (merge_trades (Some tB) tA) =
     (if rows tA = [] then rows tB else keep_first Hash {} (rows tB @ rows tA))"
  by (simp add: merge_trades_def concat_frames_def Let_def)

text \<open>
  \<open>merge_trades\<close> keeps every row of its first argument whose hash that argument holds once:
  on a collision the copy of \<open>existing\<close> wins.  \<open>merge_with\<close> passes the trades of \<open>other\<close>
  (the incoming ledger) as \<open>existing\<close>, so there it is the incoming copy that is kept.
\<close>

lemma merge_trades_keeps_existing:
  assumes "distinct (map Hash (rows ex))" and "t \<in> set (rows ex)"
  shows "t \<in> set (rows (merge_trades (Some ex) new))"
  using assms by (simp add: merge_trades_def concat_frames_def Let_def keep_first_append keep_first_id)

lemma merge_with_keeps_incoming:
  assumes "distinct (map Hash (rows (trades B)))" and "t \<in> set (rows (trades B))"
  shows "t \<in> set (rows (trades (fst (merge_with A B d))))"
  using assms by (simp add: merge_with_trades merge_trades_keeps_existing)

subsection \<open>Claims about merging\<close>

text \<open>
  A second merge of the same ledger and the tables that \<open>merge_with\<close> deduplicates: when
  the receiving ledger holds a trade, or the incoming ledger holds no hash twice, the
  trades, the import records, the open positions, the dividends and the pairings are as
  the first merge left them, and the second merge reports an imported count of 0.
\<close>

lemma merge_with_twice_tables:
  assumes "rows (trades A) \<noteq> [] \<or> distinct (map Hash (rows (trades B)))"
  shows "(let C = fst (merge_with A B d); R = merge_with C B d
          in trades (fst R) = trades C \<and> imports' (fst R) = imports' C
           \<and> positions (fst R) = positions C \<and> dividends (fst R) = dividends C
           \<and> pairings (fst R) = pairings C \<and> snd R = 0)"
proof -
  let ?C = "fst (merge_with A B d)"
  let ?R = "merge_with ?C B d"
  have t: "merge_trades (Some (trades B)) (trades ?C) = trades ?C"
    using assms by (simp add: merge_with_trades merge_trades_twice)
  have 1: "trades (fst ?R) = trades ?C"
    using t by (simp add: merge_with_trades)
  have 6: "snd ?R = 0"
    using t by (simp add: merge_with_count)
  have 2: "imports' (fst ?R) = imports' ?C"
    by (simp add: merge_with_def Let_def drop_duplicates_def keep_first_idem_rev)
  have 3: "positions (fst ?R) = positions ?C"
    by (simp add: merge_with_def Let_def drop_duplicates_subset_def keep_first_idem)
  have 4: "dividends (fst ?R) = dividends ?C"
    by (simp add: merge_with_def Let_def drop_duplicates_def keep_first_idem_rev)
  have 5: "pairings (fst ?R) = pairings ?C"
  proof -
    have "pairings (fst ?R) = (if \<not> d then pairings B else pairings ?C)"
      using 6 by (simp add: merge_with_def Let_def)
    moreover have "\<not> d \<Longrightarrow> pairings ?C = pairings B"
      by (simp add: merge_with_def Let_def)
    ultimately show ?thesis by simp
  qed
  from 1 2 3 4 5 6 show ?thesis by (simp add: Let_def)
qed

text \<open>
  Claim C2 says that on a hash held by both ledgers the receiving ledger's copy stays.
  \<open>merge_with\<close> calls \<open>merge_trades(other.trades, self.trades)\<close>: the incoming trades
  stand first and the first copy is kept.  Here the receiving ledger holds \<open>h1\<close> with its
  split-adjusted quantity 20; after merging the statement that reports \<open>h1\<close> with quantity
  10, the ledger holds the statement's copy and the adjusted copy is gone.
\<close>

theorem merge_with_overwrites_existing:
  "rows (trades (fst (merge_with ledger_old ledger_new True)))
     = [imported_trade ''h1'' ''AAPL'' 100 10 50]
   \<and> held_copy \<notin> set (rows (trades (fst (merge_with ledger_old ledger_new True))))
   \<and> Hash held_copy = Hash (imported_trade ''h1'' ''AAPL'' 100 10 50)
   \<and> snd (merge_with ledger_old ledger_new True) = 0"
  by (simp add: merge_with_trades merge_with_count merge_trades_rows ledger_old_def
        ledger_new_def reset_def frame_of_def held_copy_def imported_trade_def)




section \<open>Data-quality queries\<close>

text \<open>
  \<open>positions_with_missing_transactions(trades)\<close> of \<open>trade.py\<close>: a boolean mask selects rows
  into a new frame.  The model returns the frame the caller still holds after the call
  together with the result, so that what the call does to its argument is part of the
  model.  In Python \<open>&\<close> binds tighter than \<open>|\<close>.
\<close>

definition positions_with_missing_transactions :: "trades_frame \<Rightarrow> trades_frame \<times> trades_frame" where
  "positions_with_missing_transactions trades' =
     (trades',
      trades'\<lparr>rows := filter (\<lambda>t.
          (flt (Accumulated_Quantity t) (Num 0) \<and> Type t = Some ''Long'' \<and> Action t = Some ''Close'')
        \<or> (fgt (Accumulated_Quantity t) (Num 0) \<and> Type t = Some ''Short'' \<and> Action t = Some ''Close''))
        (rows trades')\<rparr>)"

text \<open>
  A series indexed by two string levels, as a list of index and value in index order.
  \<open>groupby([k1, k2])['Quantity'].sum()\<close> drops the rows in which a key is missing, sorts
  the groups by key and sums each group, skipping NaN.
\<close>

type_synonym series = "((string \<times> string) \<times> float64) list"

definition groupby_sum ::
  "(trade \<Rightarrow> string option) \<Rightarrow> (trade \<Rightarrow> string option) \<Rightarrow> trade list \<Rightarrow> series" where
  "groupby_sum k1 k2 ts =
     map (\<lambda>k. (k, series_sum (map Quantity
                  (filter (\<lambda>t. k1 t = Some (fst k) \<and> k2 t = Some (snd k)) ts))))
       (sort (remdups (concat (map (\<lambda>t. case (k1 t, k2 t) of
                                        (Some a, Some b) \<Rightarrow> [(a, b)] | _ \<Rightarrow> []) ts))))"

text \<open>
  \<open>a.add(b, fill_value=0)\<close>: the index is the union of both; a value missing on one
  side counts as 0, a value missing on both sides stays missing.
\<close>

definition add_fill0 :: "float64 option \<Rightarrow> float64 option \<Rightarrow> float64" where
  "add_fill0 x y =
     (let a = (case x of None \<Rightarrow> NaN | Some v \<Rightarrow> v);
          b = (case y of None \<Rightarrow> NaN | Some v \<Rightarrow> v)
      in if isna a \<and> isna b then NaN else fadd (fillna (Num 0) a) (fillna (Num 0) b))"

definition series_add :: "series \<Rightarrow> series \<Rightarrow> series" where
  "series_add s1 s2 =
     map (\<lambda>k. (k, add_fill0 (map_of s1 k) (map_of s2 k)))
       (sort (remdups (map fst s1 @ map fst s2)))"

text \<open>
  \<open>transfers_with_missing_transactions(trades)\<close> of \<open>trade.py\<close> returns an empty data frame,
  or the pair \<open>(unmatched_incoming, unmatched_outgoing)\<close>.
\<close>

datatype transfers_report = Empty_DataFrame | Unmatched series series

definition transfers_with_missing_transactions :: "trades_frame \<Rightarrow> transfers_report" where
  "transfers_with_missing_transactions trades' =
     (let transfers = filter (\<lambda>t. Action t = Some ''Transfer'' \<and> Type t \<noteq> Some ''Spinoff'') (rows trades');
          outgoing = filter (\<lambda>t. Type t = Some ''Out'') transfers
      in if has_Target trades' then
           (let incoming = filter (\<lambda>t. Type t = Some ''In'') transfers;
                incoming_grouped = groupby_sum Display_Name Account incoming;
                outgoing_grouped = groupby_sum Display_Name Target outgoing;
                unmatched_outgoing = filter (\<lambda>(k, v). flt v (Num 0))
                                       (series_add outgoing_grouped incoming_grouped);
                incoming_grouped2 = groupby_sum Display_Name Target incoming;
                outgoing_grouped2 = groupby_sum Display_Name Account outgoing;
                unmatched_incoming = filter (\<lambda>(k, v). fgt v (Num 0))
                                       (series_add incoming_grouped2 outgoing_grouped2)
            in Unmatched unmatched_incoming unmatched_outgoing)
         else Empty_DataFrame)"

subsection \<open>Group residuals\<close>

text \<open>
  The quantity a row contributes to a sum (a missing quantity contributes nothing), the
  outgoing and incoming transfers of a frame, and the residual of a group: the sum of the
  quantities of the transfers of one direction sent to the pair and of the transfers of the
  other direction held by the pair.
\<close>

definition real_quantity :: "trade \<Rightarrow> real" where
  "real_quantity t = (case Quantity t of Num q \<Rightarrow> q | _ \<Rightarrow> 0)"

definition transfers_out :: "trades_frame \<Rightarrow> trade list" where
  "transfers_out f = filter (\<lambda>t. Action t = Some ''Transfer'' \<and> Type t = Some ''Out'') (rows f)"

definition transfers_in :: "trades_frame \<Rightarrow> trade list" where
  "transfers_in f = filter (\<lambda>t. Action t = Some ''Transfer'' \<and> Type t = Some ''In'') (rows f)"

definition in_group ::
  "(trade \<Rightarrow> string option) \<Rightarrow> (trade \<Rightarrow> string option) \<Rightarrow> string \<times> string \<Rightarrow> trade \<Rightarrow> bool" where
  "in_group k1 k2 k t = (k1 t = Some (fst k) \<and> k2 t = Some (snd k))"

definition group_total ::
  "(trade \<Rightarrow> string option) \<Rightarrow> (trade \<Rightarrow> string option) \<Rightarrow> trade list \<Rightarrow> string \<times> string \<Rightarrow> real" where
  "group_total k1 k2 ts k = sum_list (map real_quantity (filter (in_group k1 k2 k) ts))"

definition has_group ::
  "(trade \<Rightarrow> string option) \<Rightarrow> (trade \<Rightarrow> string option) \<Rightarrow> trade list \<Rightarrow> string \<times> string \<Rightarrow> bool" where
  "has_group k1 k2 ts k = (filter (in_group k1 k2 k) ts \<noteq> [])"

definition outgoing_residual :: "trades_frame \<Rightarrow> string \<times> string \<Rightarrow> real" where
  "outgoing_residual f k =
     group_total Display_Name Target (transfers_out f) k
     + group_total Display_Name Account (transfers_in f) k"

definition incoming_residual :: "trades_frame \<Rightarrow> string \<times> string \<Rightarrow> real" where
  "incoming_residual f k =
     group_total Display_Name Target (transfers_in f) k
     + group_total Display_Name Account (transfers_out f) k"

subsection \<open>Example frames\<close>

definition transfer_row :: "string \<Rightarrow> string \<Rightarrow> string \<Rightarrow> string \<Rightarrow> real \<Rightarrow> trade" where
  "transfer_row h name acct tgt q =
     (imported_trade h name 100 q 0)
       \<lparr>Action := Some ''Transfer'', Type := Some (if 0 < q then ''In'' else ''Out''),
        Account := Some acct, Target := Some tgt, Display_Name := Some name\<rparr>"

definition transfers_frame :: trades_frame where
  "transfers_frame = \<lparr>has_Split_Ratio = False, has_Target = True,
     rows = [transfer_row ''t1'' ''AAPL'' ''U1'' ''U2'' (-10),
             transfer_row ''t2'' ''AAPL'' ''U2'' ''U1'' 4,
             transfer_row ''t3'' ''MSFT'' ''U2'' ''U1'' 7]\<rparr>"

definition spinoff_frame :: trades_frame where
  "spinoff_frame = transfers_frame\<lparr>rows :=
      (transfer_row ''t4'' ''AAPL'' ''U2'' ''U1'' 6)\<lparr>Type := Some ''Spinoff''\<rparr> # rows transfers_frame\<rparr>"

definition covered_sequence :: trades_frame where
  "covered_sequence = frame_of
     [(imported_trade ''c1'' ''AAPL'' 100 10 50)\<lparr>Accumulated_Quantity := Num 10\<rparr>,
      (imported_trade ''c2'' ''AAPL'' 200 (- 10) 60)
        \<lparr>Action := Some ''Close'', Accumulated_Quantity := Num 0\<rparr>]"

definition uncovered_close :: trade where
  "uncovered_close = (imported_trade ''c2'' ''AAPL'' 200 (- 10) 60)
        \<lparr>Action := Some ''Close'', Accumulated_Quantity := Num (- 10)\<rparr>"

subsection \<open>Claims about the queries\<close>

text \<open>
  Claim C7.  The impossible-position query leaves the frame it is given as it was, and
  returns the rows, in their order and as often as they occur, that have action Close and
  are either of type Long with a negative accumulated quantity or of type Short with a
  positive one.  When the frame has no such row the result has no row.
\<close>

theorem positions_with_missing_transactions_exact:
  "fst (positions_with_missing_transactions f) = f
   \<and> set (rows (snd (positions_with_missing_transactions f)))
       = {t \<in> set (rows f). Action t = Some ''Close''
            \<and> ((Type t = Some ''Long'' \<and> flt (Accumulated_Quantity t) (Num 0))
               \<or> (Type t = Some ''Short'' \<and> flt (Num 0) (Accumulated_Quantity t)))}
   \<and> (\<forall>t. count_list (rows (snd (positions_with_missing_transactions f))) t
          = (if Action t = Some ''Close''
               \<and> ((Type t = Some ''Long'' \<and> flt (Accumulated_Quantity t) (Num 0))
                  \<or> (Type t = Some ''Short'' \<and> flt (Num 0) (Accumulated_Quantity t)))
             then count_list (rows f) t else 0))
   \<and> ((\<forall>t\<in>set (rows f). \<not> (Action t = Some ''Close''
            \<and> ((Type t = Some ''Long'' \<and> flt (Accumulated_Quantity t) (Num 0))
               \<or> (Type t = Some ''Short'' \<and> flt (Num 0) (Accumulated_Quantity t)))))
        \<longrightarrow> rows (snd (positions_with_missing_transactions f)) = [])"
proof -
  let ?P = "\<lambda>t. Action t = Some ''Close''
            \<and> ((Type t = Some ''Long'' \<and> flt (Accumulated_Quantity t) (Num 0))
               \<or> (Type t = Some ''Short'' \<and> flt (Num 0) (Accumulated_Quantity t)))"
  have r: "rows (snd (positions_with_missing_transactions f)) = filter ?P (rows f)"
    unfolding positions_with_missing_transactions_def fgt_def
    by (auto intro: filter_cong)
  have c: "count_list (filter ?P xs) t = (if ?P t then count_list xs t else 0)"
    for xs :: "trade list" and t
    by (induction xs) auto
  have 1: "fst (positions_with_missing_transactions f) = f"
    by (simp add: positions_with_missing_transactions_def)
  have 2: "(\<forall>t\<in>set (rows f). \<not> ?P t) \<longrightarrow> filter ?P (rows f) = []"
    by (simp add: filter_empty_conv)
  show ?thesis
    unfolding r using 1 2 c by auto
qed

theorem positions_with_missing_transactions_exact_witness:
  "rows (snd (positions_with_missing_transactions covered_sequence)) = []
   \<and> rows (snd (positions_with_missing_transactions (frame_of [uncovered_close])))
       = [uncovered_close]
   \<and> fst (positions_with_missing_transactions covered_sequence) = covered_sequence"
proof -
  have h: "\<forall>t\<in>set (rows covered_sequence). \<not> (Action t = Some ''Close''
            \<and> ((Type t = Some ''Long'' \<and> flt (Accumulated_Quantity t) (Num 0))
               \<or> (Type t = Some ''Short'' \<and> flt (Num 0) (Accumulated_Quantity t))))"
    by (simp add: covered_sequence_def frame_of_def imported_trade_def)
  from positions_with_missing_transactions_exact[of covered_sequence] h
  have 1: "rows (snd (positions_with_missing_transactions covered_sequence)) = []"
    and 3: "fst (positions_with_missing_transactions covered_sequence) = covered_sequence"
    by blast+
  have 2: "rows (snd (positions_with_missing_transactions (frame_of [uncovered_close])))
       = [uncovered_close]"
    by (simp add: positions_with_missing_transactions_def frame_of_def uncovered_close_def
          imported_trade_def)
  from 1 2 3 show ?thesis by blast
qed

lemma transfers_of_without_spinoff:
  "filter (\<lambda>t. Action t = Some ''Transfer'' \<and> Type t \<noteq> Some ''Spinoff'')
     (filter (\<lambda>t. Type t \<noteq> Some ''Spinoff'') ts)
   = filter (\<lambda>t. Action t = Some ''Transfer'' \<and> Type t \<noteq> Some ''Spinoff'') ts"
  by (induction ts) auto

lemma foldl_fadd_Num:
  assumes "\<forall>x\<in>set xs. \<exists>q. x = Num q"
  shows "foldl fadd (Num a) xs = Num (a + sum_list (map (\<lambda>x. case x of Num q \<Rightarrow> q | _ \<Rightarrow> 0) xs))"
  using assms
proof (induction xs arbitrary: a)
  case Nil
  show ?case by simp
next
  case (Cons x xs)
  then obtain q where x: "x = Num q" by auto
  from Cons.prems have "\<forall>y\<in>set xs. \<exists>q. y = Num q" by simp
  from Cons.IH[OF this, of "a + q"] x show ?case by (simp add: add.assoc)
qed

lemma sum_list_skip_nan:
  "sum_list (map (\<lambda>x. case x of Num q \<Rightarrow> q | _ \<Rightarrow> 0) (filter (\<lambda>x. \<not> isna x) xs))
     = sum_list (map (\<lambda>x. case x of Num q \<Rightarrow> q | _ \<Rightarrow> (0::real)) xs)"
proof (induction xs)
  case Nil
  show ?case by simp
next
  case (Cons x xs)
  then show ?case by (cases x) simp_all
qed

lemma series_sum_finite:
  assumes "\<forall>x\<in>set xs. x \<noteq> PosInf \<and> x \<noteq> NegInf"
  shows "series_sum xs = Num (sum_list (map (\<lambda>x. case x of Num q \<Rightarrow> q | _ \<Rightarrow> 0) xs))"
proof -
  have "\<forall>x\<in>set (filter (\<lambda>x. \<not> isna x) xs). \<exists>q. x = Num q"
  proof
    fix x assume "x \<in> set (filter (\<lambda>x. \<not> isna x) xs)"
    with assms show "\<exists>q. x = Num q" by (cases x) auto
  qed
  from foldl_fadd_Num[OF this, of 0] show ?thesis
    by (simp add: series_sum_def sum_list_skip_nan)
qed

lemma map_of_map_key:
  "map_of (map (\<lambda>k. (k, g k)) ks) k = (if k \<in> set ks then Some (g k) else None)"
  by (induction ks) auto

lemma in_group_fun: "in_group k1 k2 k = (\<lambda>t. k1 t = Some (fst k) \<and> k2 t = Some (snd k))"
  by (rule ext) (simp add: in_group_def)

lemma real_quantity_fun: "real_quantity = (\<lambda>t. case Quantity t of Num q \<Rightarrow> q | _ \<Rightarrow> 0)"
  by (rule ext) (simp add: real_quantity_def)

lemma mem_group_keys:
  "k \<in> set (concat (map (\<lambda>t. case (k1 t, k2 t) of (Some a, Some b) \<Rightarrow> [(a, b)] | _ \<Rightarrow> []) ts))
     \<longleftrightarrow> has_group k1 k2 ts k"
proof (induction ts)
  case Nil
  show ?case by (simp add: has_group_def)
next
  case (Cons t ts)
  have h: "has_group k1 k2 (t # ts) k \<longleftrightarrow> in_group k1 k2 k t \<or> has_group k1 k2 ts k"
    by (auto simp: has_group_def)
  have e: "k \<in> set (case (k1 t, k2 t) of (Some a, Some b) \<Rightarrow> [(a, b)] | _ \<Rightarrow> [])
             \<longleftrightarrow> in_group k1 k2 k t"
    by (cases k) (auto simp: in_group_def split: option.splits)
  show ?case
    unfolding h using Cons.IH e
    by (simp only: list.map concat.simps set_append Un_iff)
qed

lemma groupby_sum_keys:
  "map fst (groupby_sum k1 k2 ts)
     = sort (remdups (concat (map (\<lambda>t. case (k1 t, k2 t) of (Some a, Some b) \<Rightarrow> [(a, b)] | _ \<Rightarrow> []) ts)))"
  by (simp add: groupby_sum_def comp_def)

lemma mem_groupby_sum_keys: "k \<in> fst ` set (groupby_sum k1 k2 ts) \<longleftrightarrow> has_group k1 k2 ts k"
proof -
  have "fst ` set (groupby_sum k1 k2 ts) = set (map fst (groupby_sum k1 k2 ts))" by simp
  also have "\<dots> = set (concat (map (\<lambda>t. case (k1 t, k2 t) of (Some a, Some b) \<Rightarrow> [(a, b)] | _ \<Rightarrow> []) ts))"
    unfolding groupby_sum_keys by (simp only: set_sort set_remdups)
  finally show ?thesis by (simp only: mem_group_keys)
qed

lemma map_of_groupby_sum:
  assumes "\<forall>t\<in>set ts. Quantity t \<noteq> PosInf \<and> Quantity t \<noteq> NegInf"
  shows "map_of (groupby_sum k1 k2 ts) k
           = (if has_group k1 k2 ts k then Some (Num (group_total k1 k2 ts k)) else None)"
proof -
  let ?g = "\<lambda>k. series_sum (map Quantity (filter (\<lambda>t. k1 t = Some (fst k) \<and> k2 t = Some (snd k)) ts))"
  let ?ks = "sort (remdups (concat (map (\<lambda>t. case (k1 t, k2 t) of
                                        (Some a, Some b) \<Rightarrow> [(a, b)] | _ \<Rightarrow> []) ts)))"
  have m: "map_of (groupby_sum k1 k2 ts) k = (if k \<in> set ?ks then Some (?g k) else None)"
    unfolding groupby_sum_def by (rule map_of_map_key[of ?g ?ks k])
  have ks: "k \<in> set ?ks \<longleftrightarrow> has_group k1 k2 ts k"
    by (simp only: set_sort set_remdups mem_group_keys)
  have "\<forall>x\<in>set (map Quantity (filter (in_group k1 k2 k) ts)). x \<noteq> PosInf \<and> x \<noteq> NegInf"
    using assms by auto
  from series_sum_finite[OF this]
  have "series_sum (map Quantity (filter (in_group k1 k2 k) ts)) = Num (group_total k1 k2 ts k)"
    by (simp add: group_total_def real_quantity_fun comp_def)
  then have "?g k = Num (group_total k1 k2 ts k)"
    unfolding in_group_fun .
  with m ks show ?thesis by simp
qed

lemma group_total_absent: "\<not> has_group k1 k2 ts k \<Longrightarrow> group_total k1 k2 ts k = 0"
  by (simp add: has_group_def group_total_def)

lemma series_add_keys: "map fst (series_add s1 s2) = sort (remdups (map fst s1 @ map fst s2))"
  by (simp add: series_add_def comp_def)

lemma mem_series_add:
  "(k, v) \<in> set (series_add s1 s2)
     \<longleftrightarrow> (k \<in> fst ` set s1 \<or> k \<in> fst ` set s2) \<and> v = add_fill0 (map_of s1 k) (map_of s2 k)"
proof -
  let ?ks = "sort (remdups (map fst s1 @ map fst s2))"
  have "(k, v) \<in> set (map (\<lambda>k. (k, add_fill0 (map_of s1 k) (map_of s2 k))) ?ks)
          \<longleftrightarrow> k \<in> set ?ks \<and> v = add_fill0 (map_of s1 k) (map_of s2 k)"
    by (induction ?ks) auto
  moreover have "k \<in> set ?ks \<longleftrightarrow> k \<in> fst ` set s1 \<or> k \<in> fst ` set s2"
    by simp
  ultimately show ?thesis by (simp only: series_add_def)
qed

lemma add_fill0_groups:
  assumes f1: "\<forall>t\<in>set ts1. Quantity t \<noteq> PosInf \<and> Quantity t \<noteq> NegInf"
      and f2: "\<forall>t\<in>set ts2. Quantity t \<noteq> PosInf \<and> Quantity t \<noteq> NegInf"
      and g: "has_group a b ts1 k \<or> has_group c d ts2 k"
  shows "add_fill0 (map_of (groupby_sum a b ts1) k) (map_of (groupby_sum c d ts2) k)
           = Num (group_total a b ts1 k + group_total c d ts2 k)"
  using g
  by (auto simp: map_of_groupby_sum[OF f1] map_of_groupby_sum[OF f2] add_fill0_def fillna_def
        group_total_absent)

lemma mem_unmatched:
  assumes f1: "\<forall>t\<in>set ts1. Quantity t \<noteq> PosInf \<and> Quantity t \<noteq> NegInf"
      and f2: "\<forall>t\<in>set ts2. Quantity t \<noteq> PosInf \<and> Quantity t \<noteq> NegInf"
  shows "(k, v) \<in> set (series_add (groupby_sum a b ts1) (groupby_sum c d ts2))
           \<longleftrightarrow> (has_group a b ts1 k \<or> has_group c d ts2 k)
               \<and> v = Num (group_total a b ts1 k + group_total c d ts2 k)"
proof (cases "has_group a b ts1 k \<or> has_group c d ts2 k")
  case True
  from add_fill0_groups[OF f1 f2 True] True show ?thesis
    by (simp only: mem_series_add mem_groupby_sum_keys)
next
  case False
  then show ?thesis
    by (simp only: mem_series_add mem_groupby_sum_keys) simp
qed

lemma outgoing_rows:
  "filter (\<lambda>t. Type t = Some ''Out'')
     (filter (\<lambda>t. Action t = Some ''Transfer'' \<and> Type t \<noteq> Some ''Spinoff'') ts)
   = filter (\<lambda>t. Action t = Some ''Transfer'' \<and> Type t = Some ''Out'') ts"
  by (induction ts) auto

lemma incoming_rows:
  "filter (\<lambda>t. Type t = Some ''In'')
     (filter (\<lambda>t. Action t = Some ''Transfer'' \<and> Type t \<noteq> Some ''Spinoff'') ts)
   = filter (\<lambda>t. Action t = Some ''Transfer'' \<and> Type t = Some ''In'') ts"
  by (induction ts) auto

lemma transfers_with_missing_transactions_Unmatched:
  assumes "has_Target f"
  shows "transfers_with_missing_transactions f =
           Unmatched
             (filter (\<lambda>(k, v). fgt v (Num 0))
                (series_add (groupby_sum Display_Name Target (transfers_in f))
                            (groupby_sum Display_Name Account (transfers_out f))))
             (filter (\<lambda>(k, v). flt v (Num 0))
                (series_add (groupby_sum Display_Name Target (transfers_out f))
                            (groupby_sum Display_Name Account (transfers_in f))))"
  using assms
  by (simp add: transfers_with_missing_transactions_def Let_def transfers_in_def transfers_out_def
        outgoing_rows incoming_rows del: filter_filter)

lemma sorted_distinct_filter_series_add:
  "sorted (map fst (filter P (series_add s1 s2))) \<and> distinct (map fst (filter P (series_add s1 s2)))"
proof -
  have "sorted (map fst (series_add s1 s2))" and "distinct (map fst (series_add s1 s2))"
    by (simp_all only: series_add_keys sorted_sort distinct_sort distinct_remdups)
  then show ?thesis
    by (simp add: sorted_filter distinct_map_filter)
qed

lemma finite_transfers:
  assumes "\<forall>t\<in>set (rows f). Quantity t \<noteq> PosInf \<and> Quantity t \<noteq> NegInf"
  shows "\<forall>t\<in>set (transfers_out f). Quantity t \<noteq> PosInf \<and> Quantity t \<noteq> NegInf"
    and "\<forall>t\<in>set (transfers_in f). Quantity t \<noteq> PosInf \<and> Quantity t \<noteq> NegInf"
  using assms by (simp_all add: transfers_out_def transfers_in_def)

lemma mem_unmatched_outgoing:
  assumes "\<forall>t\<in>set (rows f). Quantity t \<noteq> PosInf \<and> Quantity t \<noteq> NegInf"
  shows "(k, v) \<in> set (filter (\<lambda>(k, v). flt v (Num 0))
                (series_add (groupby_sum Display_Name Target (transfers_out f))
                            (groupby_sum Display_Name Account (transfers_in f))))
         \<longleftrightarrow> (has_group Display_Name Target (transfers_out f) k
                \<or> has_group Display_Name Account (transfers_in f) k)
             \<and> v = Num (outgoing_residual f k) \<and> outgoing_residual f k < 0"
proof -
  note m = mem_unmatched[OF finite_transfers(1)[OF assms] finite_transfers(2)[OF assms],
      of k v Display_Name Target Display_Name Account]
  show ?thesis
    unfolding set_filter mem_Collect_eq m outgoing_residual_def
    by auto
qed

lemma mem_unmatched_incoming:
  assumes "\<forall>t\<in>set (rows f). Quantity t \<noteq> PosInf \<and> Quantity t \<noteq> NegInf"
  shows "(k, v) \<in> set (filter (\<lambda>(k, v). fgt v (Num 0))
                (series_add (groupby_sum Display_Name Target (transfers_in f))
                            (groupby_sum Display_Name Account (transfers_out f))))
         \<longleftrightarrow> (has_group Display_Name Target (transfers_in f) k
                \<or> has_group Display_Name Account (transfers_out f) k)
             \<and> v = Num (incoming_residual f k) \<and> 0 < incoming_residual f k"
proof -
  note m = mem_unmatched[OF finite_transfers(2)[OF assms] finite_transfers(1)[OF assms],
      of k v Display_Name Target Display_Name Account]
  show ?thesis
    unfolding set_filter mem_Collect_eq m incoming_residual_def
    by (auto simp: fgt_def)
qed

text \<open>
  Claim C10.  On a trades frame without a Target column the unmatched-transfer query returns
  one empty data frame.  On a frame with a Target column it returns two series, each indexed
  by distinct pairs of display name and account in ascending order; every value of the
  unmatched outgoing series is below 0 and every value of the unmatched incoming series is
  above 0.  When no transfer quantity is infinite the two series are exactly the group
  residuals of that sign: a pair is reported as unmatched outgoing, with the value of its
  outgoing residual, if and only if some outgoing transfer names it as target or some incoming
  transfer names it as account and its outgoing residual (the sum of the outgoing quantities
  sent to the pair and the incoming quantities received by the pair) is below 0; and
  symmetrically for unmatched incoming with the incoming residual above 0.  Rows of type
  Spinoff take no part: the result is the result on the frame without them.
\<close>

theorem transfers_with_missing_transactions_report:
  "(\<not> has_Target f \<longrightarrow> transfers_with_missing_transactions f = Empty_DataFrame)
   \<and> (has_Target f \<longrightarrow>
        (\<exists>unmatched_incoming unmatched_outgoing.
           transfers_with_missing_transactions f = Unmatched unmatched_incoming unmatched_outgoing
           \<and> (\<forall>(k, v)\<in>set unmatched_outgoing. flt v (Num 0))
           \<and> (\<forall>(k, v)\<in>set unmatched_incoming. flt (Num 0) v)
           \<and> sorted (map fst unmatched_outgoing) \<and> distinct (map fst unmatched_outgoing)
           \<and> sorted (map fst unmatched_incoming) \<and> distinct (map fst unmatched_incoming)
           \<and> ((\<forall>t\<in>set (rows f). Quantity t \<noteq> PosInf \<and> Quantity t \<noteq> NegInf) \<longrightarrow>
                (\<forall>k v. (k, v) \<in> set unmatched_outgoing
                   \<longleftrightarrow> (has_group Display_Name Target (transfers_out f) k
                          \<or> has_group Display_Name Account (transfers_in f) k)
                       \<and> v = Num (outgoing_residual f k) \<and> outgoing_residual f k < 0)
                \<and> (\<forall>k v. (k, v) \<in> set unmatched_incoming
                   \<longleftrightarrow> (has_group Display_Name Target (transfers_in f) k
                          \<or> has_group Display_Name Account (transfers_out f) k)
                       \<and> v = Num (incoming_residual f k) \<and> 0 < incoming_residual f k))))
   \<and> transfers_with_missing_transactions f
       = transfers_with_missing_transactions
           (f\<lparr>rows := filter (\<lambda>t. Type t \<noteq> Some ''Spinoff'') (rows f)\<rparr>)"
proof (intro conjI impI)
  assume "\<not> has_Target f"
  then show "transfers_with_missing_transactions f = Empty_DataFrame"
    by (simp add: transfers_with_missing_transactions_def Let_def)
next
  assume t: "has_Target f"
  let ?inc = "filter (\<lambda>(k, v). fgt v (Num 0))
                (series_add (groupby_sum Display_Name Target (transfers_in f))
                            (groupby_sum Display_Name Account (transfers_out f)))"
  let ?out = "filter (\<lambda>(k, v). flt v (Num 0))
                (series_add (groupby_sum Display_Name Target (transfers_out f))
                            (groupby_sum Display_Name Account (transfers_in f)))"
  have e: "transfers_with_missing_transactions f = Unmatched ?inc ?out"
    by (rule transfers_with_missing_transactions_Unmatched[OF t])
  have s1: "\<forall>(k, v)\<in>set ?out. flt v (Num 0)" by auto
  have s2: "\<forall>(k, v)\<in>set ?inc. flt (Num 0) v" by (auto simp: fgt_def)
  have o: "sorted (map fst ?out) \<and> distinct (map fst ?out)"
    by (rule sorted_distinct_filter_series_add)
  have i: "sorted (map fst ?inc) \<and> distinct (map fst ?inc)"
    by (rule sorted_distinct_filter_series_add)
  have x: "(\<forall>t\<in>set (rows f). Quantity t \<noteq> PosInf \<and> Quantity t \<noteq> NegInf) \<longrightarrow>
                (\<forall>k v. (k, v) \<in> set ?out
                   \<longleftrightarrow> (has_group Display_Name Target (transfers_out f) k
                          \<or> has_group Display_Name Account (transfers_in f) k)
                       \<and> v = Num (outgoing_residual f k) \<and> outgoing_residual f k < 0)
                \<and> (\<forall>k v. (k, v) \<in> set ?inc
                   \<longleftrightarrow> (has_group Display_Name Target (transfers_in f) k
                          \<or> has_group Display_Name Account (transfers_out f) k)
                       \<and> v = Num (incoming_residual f k) \<and> 0 < incoming_residual f k)"
    using mem_unmatched_outgoing[of f] mem_unmatched_incoming[of f] by blast
  from e s1 s2 o i x
  show "\<exists>unmatched_incoming unmatched_outgoing.
           transfers_with_missing_transactions f = Unmatched unmatched_incoming unmatched_outgoing
           \<and> (\<forall>(k, v)\<in>set unmatched_outgoing. flt v (Num 0))
           \<and> (\<forall>(k, v)\<in>set unmatched_incoming. flt (Num 0) v)
           \<and> sorted (map fst unmatched_outgoing) \<and> distinct (map fst unmatched_outgoing)
           \<and> sorted (map fst unmatched_incoming) \<and> distinct (map fst unmatched_incoming)
           \<and> ((\<forall>t\<in>set (rows f). Quantity t \<noteq> PosInf \<and> Quantity t \<noteq> NegInf) \<longrightarrow>
                (\<forall>k v. (k, v) \<in> set unmatched_outgoing
                   \<longleftrightarrow> (has_group Display_Name Target (transfers_out f) k
                          \<or> has_group Display_Name Account (transfers_in f) k)
                       \<and> v = Num (outgoing_residual f k) \<and> outgoing_residual f k < 0)
                \<and> (\<forall>k v. (k, v) \<in> set unmatched_incoming
                   \<longleftrightarrow> (has_group Display_Name Target (transfers_in f) k
                          \<or> has_group Display_Name Account (transfers_out f) k)
                       \<and> v = Num (incoming_residual f k) \<and> 0 < incoming_residual f k))"
    by (intro exI[of _ ?inc] exI[of _ ?out] conjI) (simp_all only:)
next
  show "transfers_with_missing_transactions f
       = transfers_with_missing_transactions
           (f\<lparr>rows := filter (\<lambda>t. Type t \<noteq> Some ''Spinoff'') (rows f)\<rparr>)"
    by (simp add: transfers_with_missing_transactions_def transfers_of_without_spinoff del: filter_filter)
qed

theorem transfers_with_missing_transactions_report_witness:
  "has_Target spinoff_frame
   \<and> \<not> has_Target (frame_of (rows spinoff_frame))
   \<and> transfers_with_missing_transactions spinoff_frame
        = Unmatched [((''MSFT'', ''U1''), Num 7)] [((''AAPL'', ''U2''), Num (- 6))]
   \<and> outgoing_residual spinoff_frame (''AAPL'', ''U2'') = - 6
   \<and> incoming_residual spinoff_frame (''MSFT'', ''U1'') = 7
   \<and> flt (Num (- 6)) (Num 0) \<and> flt (Num 0) (Num 7)
   \<and> transfers_with_missing_transactions (frame_of (rows spinoff_frame)) = Empty_DataFrame"
proof -
  have h1: "has_Target spinoff_frame"
    by (simp add: spinoff_frame_def transfers_frame_def)
  have h2: "\<not> has_Target (frame_of (rows spinoff_frame))"
    by (simp add: frame_of_def)
  have fin: "\<forall>t\<in>set (rows spinoff_frame). Quantity t \<noteq> PosInf \<and> Quantity t \<noteq> NegInf"
    by (simp add: spinoff_frame_def transfers_frame_def transfer_row_def imported_trade_def)
  have e: "transfers_with_missing_transactions spinoff_frame
        = Unmatched [((''MSFT'', ''U1''), Num 7)] [((''AAPL'', ''U2''), Num (- 6))]"
    by code_simp
  from transfers_with_missing_transactions_report[of "frame_of (rows spinoff_frame)"] h2
  have e2: "transfers_with_missing_transactions (frame_of (rows spinoff_frame)) = Empty_DataFrame"
    by blast
  from transfers_with_missing_transactions_report[of spinoff_frame] h1 fin
  obtain inc out where r: "transfers_with_missing_transactions spinoff_frame = Unmatched inc out"
    and so: "\<forall>(k, v)\<in>set out. flt v (Num 0)"
    and si: "\<forall>(k, v)\<in>set inc. flt (Num 0) v"
    and xo: "\<forall>k v. (k, v) \<in> set out
                   \<longleftrightarrow> (has_group Display_Name Target (transfers_out spinoff_frame) k
                          \<or> has_group Display_Name Account (transfers_in spinoff_frame) k)
                       \<and> v = Num (outgoing_residual spinoff_frame k)
                       \<and> outgoing_residual spinoff_frame k < 0"
    and xi: "\<forall>k v. (k, v) \<in> set inc
                   \<longleftrightarrow> (has_group Display_Name Target (transfers_in spinoff_frame) k
                          \<or> has_group Display_Name Account (transfers_out spinoff_frame) k)
                       \<and> v = Num (incoming_residual spinoff_frame k)
                       \<and> 0 < incoming_residual spinoff_frame k"
    by blast
  from r e have io: "inc = [((''MSFT'', ''U1''), Num 7)]" "out = [((''AAPL'', ''U2''), Num (- 6))]"
    by simp_all
  from xo[rule_format, of "(''AAPL'', ''U2'')" "Num (- 6)"] io
  have 1: "outgoing_residual spinoff_frame (''AAPL'', ''U2'') = - 6" by simp
  from xi[rule_format, of "(''MSFT'', ''U1'')" "Num 7"] io
  have 2: "incoming_residual spinoff_frame (''MSFT'', ''U1'') = 7" by simp
  from so si io have 3: "flt (Num (- 6)) (Num 0) \<and> flt (Num 0) (Num 7)" by simp
  from h1 h2 e e2 1 2 3 show ?thesis by blast
qed

section \<open>Split adjustment\<close>

text \<open>
  \<open>groupby('Symbol')['Ratio'].cumprod()\<close> over the rows in their order: a running product
  per symbol, starting from 1.  A row whose symbol is missing belongs to no group and gets
  NaN; a NaN ratio gives NaN at its row and leaves the running product as it was.
\<close>

fun cumprod_by_symbol :: "(string \<Rightarrow> float64) \<Rightarrow> corporate_action list \<Rightarrow> float64 list" where
  "cumprod_by_symbol acc [] = []"
| "cumprod_by_symbol acc (a # as) =
     (case act_Symbol a of
        None \<Rightarrow> NaN # cumprod_by_symbol acc as
      | Some s \<Rightarrow>
          if isna (act_Ratio a) then NaN # cumprod_by_symbol acc as
          else (let v = fmul (acc s) (act_Ratio a)
                in v # cumprod_by_symbol (acc(s := v)) as))"

text \<open>
  The cumulative ratios among the split rows of symbol \<open>s\<close> dated strictly after \<open>d\<close>:
  \<open>split_actions[(Symbol == s) & (Date/Time > d)]['Cumulative Ratio']\<close>.
\<close>

definition later_cumulative_ratios ::
  "(corporate_action \<times> float64) list \<Rightarrow> string \<Rightarrow> int \<Rightarrow> float64 list" where
  "later_cumulative_ratios cum s d =
     map snd (filter (\<lambda>(a, c). act_Symbol a = Some s \<and> d < act_Date_Time a) cum)"

text \<open>
  \<open>add_split_data(target, split_actions)\<close> of \<open>trade.py\<close>.  \<open>sort_values\<close> is modelled by
  the stable \<open>sort_key\<close>.  The function maps over the rows of the target; on a target
  without rows pandas' \<open>apply\<close> yields no series, a case the callers guard against and the
  claims do not speak of.  The in-place \<open>fillna\<close> is taken to reach the frame.
\<close>

definition add_split_data :: "trades_frame \<Rightarrow> corporate_action list option \<Rightarrow> trades_frame" where
  "add_split_data target split_actions =
     (let target1 = target\<lparr>has_Split_Ratio := True,
                           rows := map (\<lambda>r. r\<lparr>Split_Ratio := Num 1\<rparr>) (rows target)\<rparr>
      in case split_actions of
           None \<Rightarrow> target1
         | Some acts \<Rightarrow>
             if acts = [] then target1
             else (let splits = filter (\<lambda>a. act_Action a = ''Split'') acts
                   in if splits \<noteq> [] then
                        (let sorted = sort_key act_Date_Time splits;
                             cum = zip sorted (cumprod_by_symbol (\<lambda>s. Num 1) sorted)
                         in target1\<lparr>rows := map (\<lambda>r. r\<lparr>Split_Ratio :=
                               fillna (Num 1) (fdiv (Num 1)
                                 (series_min (later_cumulative_ratios cum (Symbol r) (Date_Time r))))\<rparr>)
                               (rows target1)\<rparr>)
                      else target1))"

text \<open>
  \<open>adjust_for_splits(trades, split_actions)\<close> of \<open>trade.py\<close>.  The decorator
  \<open>st.cache_data\<close> is not modelled: the function is taken as run on every call.
\<close>

definition adjust_for_splits :: "trades_frame \<Rightarrow> corporate_action list option \<Rightarrow> trades_frame" where
  "adjust_for_splits trades0 split_actions =
     (let trades1 = (if \<not> has_Split_Ratio trades0
                     then trades0\<lparr>has_Split_Ratio := True,
                                  rows := map (\<lambda>r. r\<lparr>Split_Ratio := NaN\<rparr>) (rows trades0)\<rparr>
                     else trades0)
      in case split_actions of
           None \<Rightarrow> trades1
         | Some acts \<Rightarrow>
             if acts \<noteq> [] then
               (let trades2 = add_split_data trades1 split_actions;
                    trades3 = trades2\<lparr>rows := map (\<lambda>r. r\<lparr>Quantity :=
                                  fmul (Orig_Quantity r) (Split_Ratio r)\<rparr>) (rows trades2)\<rparr>
                in trades3\<lparr>rows := map (\<lambda>r. r\<lparr>T_Price :=
                                  fdiv (Orig_T_Price r) (Split_Ratio r)\<rparr>) (rows trades3)\<rparr>)
             else trades1)"

subsection \<open>The adjustment in the words of the specification\<close>

text \<open>
  The specification: for the actions with action Split, sort by time ascending per symbol
  and compute a per-symbol running product of ratios; the split ratio of a trade is 1 over
  the minimum cumulative ratio among the splits of its symbol dated strictly after the
  trade, or 1 when there is none.  These definitions are over the reals.
\<close>

definition ratio_value :: "corporate_action \<Rightarrow> real" where
  "ratio_value a = (case act_Ratio a of Num r \<Rightarrow> r | _ \<Rightarrow> 0)"

definition spec_splits_of :: "string \<Rightarrow> corporate_action list \<Rightarrow> corporate_action list" where
  "spec_splits_of s acts =
     sort_key act_Date_Time (filter (\<lambda>a. act_Action a = ''Split'' \<and> act_Symbol a = Some s) acts)"

definition spec_cumulative_ratio :: "corporate_action list \<Rightarrow> nat \<Rightarrow> real" where
  "spec_cumulative_ratio ss i = prod_list (map ratio_value (take (Suc i) ss))"

definition spec_split_ratio :: "string \<Rightarrow> int \<Rightarrow> corporate_action list \<Rightarrow> real" where
  "spec_split_ratio s d acts =
     (let ss = spec_splits_of s acts;
          later = map (spec_cumulative_ratio ss)
                    (filter (\<lambda>i. d < act_Date_Time (ss ! i)) [0..<length ss])
      in if later = [] then 1 else 1 / Min (set later))"

section \<open>Corporate action descriptions\<close>

datatype py_error = ValueError | KeyError | TypeError | IndexError | ZeroDivisionError

text \<open>
  \<open>import_corporate_actions\<close> of \<open>ibkr.py\<close> reads an action from its description text with
  regular expressions.  The regular expression library is a parameter of the model: for
  each pattern of the source, a function from the text to the groups of the first match.
  \<^item> \<open>search_split\<close>: \<^verbatim>\<open>([\w\.]+)\(\w+\) Split (\d+) for (\d+)\<close>
  \<^item> \<open>search_spinoff\<close>: \<^verbatim>\<open>^(\w+)\(\w+\) Spinoff\s+(\d+) for (\d+) \((\w+),.+\)\<close>
  \<^item> \<open>search_acquisition_cash\<close>:
    \<^verbatim>\<open>^(\w+)\(\w+\) Merged\(Acquisition\) FOR (\w+) (\d+\.\d+) PER SHARE\<close>
  \<^item> \<open>search_acquisition_stock\<close>:
    \<^verbatim>\<open>^(\w+)\(\w+\) Merged\(Acquisition\) WITH (\w+) (\d+) for (\d+) \((\w+),\<close>
  \<^item> \<open>search_prefix\<close>: \<^verbatim>\<open>^(\w+)\(\w+\)\<close>
\<close>

record regex_engine =
  search_split :: "string \<Rightarrow> (string \<times> string \<times> string) option"
  search_spinoff :: "string \<Rightarrow> (string \<times> string \<times> string \<times> string) option"
  search_acquisition_cash :: "string \<Rightarrow> (string \<times> string \<times> string) option"
  search_acquisition_stock ::
    "string \<Rightarrow> (string \<times> string \<times> string \<times> string \<times> string) option"
  search_prefix :: "string \<Rightarrow> string option"

text \<open>
  \<open>float(s)\<close> for a string of decimal digits with at most one point, which is what the
  groups \<^verbatim>\<open>(\d+)\<close> and \<^verbatim>\<open>(\d+\.\d+)\<close> hold.  The division of two
  Python floats raises \<open>ZeroDivisionError\<close> on a zero divisor.
\<close>

definition digits_value :: "string \<Rightarrow> nat" where
  "digits_value ds = foldl (\<lambda>n c. 10 * n + (of_char c - 48)) 0 ds"

definition py_float :: "string \<Rightarrow> real" where
  "py_float s =
     (let whole = takeWhile (\<lambda>c. c \<noteq> CHR ''.'') s;
          frac = drop (Suc (length whole)) s
      in real (digits_value whole) + real (digits_value frac) / 10 ^ length frac)"

definition float_div :: "real \<Rightarrow> real \<Rightarrow> py_error + float64" where
  "float_div a b = (if b = 0 then Inl ZeroDivisionError else Inr (Num (a / b)))"

text \<open>The tuple \<open>(action, symbol, ratio, target)\<close>; \<open>None\<close> is Python's \<open>None\<close>.\<close>

type_synonym parsed_action = "string option \<times> string option \<times> float64 option \<times> string option"

definition parse_split_text :: "regex_engine \<Rightarrow> string \<Rightarrow> py_error + parsed_action" where
  "parse_split_text re text =
     (case search_split re text of
        Some (g1, g2, g3) \<Rightarrow>
          (case float_div (py_float g3) (py_float g2) of
             Inl e \<Rightarrow> Inl e
           | Inr ratio \<Rightarrow> Inr (Some ''Split'', Some g1, Some ratio, None))
      | None \<Rightarrow> Inr (None, None, None, None))"

definition parse_spinoff_text :: "regex_engine \<Rightarrow> string \<Rightarrow> py_error + parsed_action" where
  "parse_spinoff_text re text =
     (case search_spinoff re text of
        Some (g1, g2, g3, g4) \<Rightarrow>
          (case float_div (py_float g2) (py_float g3) of
             Inl e \<Rightarrow> Inl e
           | Inr ratio \<Rightarrow> Inr (Some ''Spinoff'', Some g4, Some ratio, None))
      | None \<Rightarrow> Inr (None, None, None, None))"

definition parse_acquisition_text :: "regex_engine \<Rightarrow> string \<Rightarrow> py_error + parsed_action" where
  "parse_acquisition_text re text =
     (case search_acquisition_cash re text of
        Some (g1, g2, g3) \<Rightarrow> Inr (Some ''Acquisition'', Some g1, Some (Num (py_float g3)), None)
      | None \<Rightarrow>
          (case search_acquisition_stock re text of
             Some (g1, g2, g3, g4, g5) \<Rightarrow>
               (case float_div (py_float g4) (py_float g3) of
                  Inl e \<Rightarrow> Inl e
                | Inr ratio \<Rightarrow> Inr (Some ''Acquisition'', Some g5, Some ratio, Some g1))
           | None \<Rightarrow> Inr (None, None, None, None)))"

text \<open>\<open>p in text\<close> on strings.\<close>

fun is_substring :: "string \<Rightarrow> string \<Rightarrow> bool" where
  "is_substring p [] = (p = [])"
| "is_substring p (c # cs) = (take (length p) (c # cs) = p \<or> is_substring p cs)"

definition parse_action_text :: "regex_engine \<Rightarrow> string \<Rightarrow> py_error + parsed_action" where
  "parse_action_text re text =
     (case parse_split_text re text of
        Inl e \<Rightarrow> Inl e
      | Inr r1 \<Rightarrow>
          (case (if fst r1 = None then parse_spinoff_text re text else Inr r1) of
             Inl e \<Rightarrow> Inl e
           | Inr r2 \<Rightarrow>
               (case (if fst r2 = None then parse_acquisition_text re text else Inr r2) of
                  Inl e \<Rightarrow> Inl e
                | Inr r3 \<Rightarrow>
                    (let r4 = (if fst r3 = None
                               then (case search_prefix re text of
                                       Some g1 \<Rightarrow> (Some ''Unknown'', Some g1, Some (Num 0), None)
                                     | None \<Rightarrow> r3)
                               else r3);
                         r5 = (if fst r4 = None \<and> is_substring ''Dividend'' text
                               then (Some ''Dividend'', None, None, None) else r4);
                         r6 = (if fst r5 = None then (Some ''Unknown'', None, None, None) else r5)
                     in Inr r6))))"

text \<open>
  One row of \<open>df[['Action', 'Symbol', 'Ratio', 'Target']] = df['Description'].apply(...)\<close>:
  the parsed tuple is written into the row; a missing ratio becomes NaN.
\<close>

definition import_action_row ::
  "regex_engine \<Rightarrow> string \<Rightarrow> corporate_action \<Rightarrow> py_error + corporate_action" where
  "import_action_row re description row =
     (case parse_action_text re description of
        Inl e \<Rightarrow> Inl e
      | Inr (action, symbol, ratio, target) \<Rightarrow>
          Inr (row\<lparr>act_Action := (case action of Some a \<Rightarrow> a | None \<Rightarrow> []),
                   act_Symbol := symbol,
                   act_Ratio := (case ratio of Some r \<Rightarrow> r | None \<Rightarrow> NaN),
                   act_Target := target\<rparr>))"

subsection \<open>Examples\<close>

definition split_action :: "string \<Rightarrow> int \<Rightarrow> real \<Rightarrow> corporate_action" where
  "split_action s t r = \<lparr>act_Symbol = Some s, act_Date_Time = t, act_Action = ''Split'',
     act_Ratio = Num r, act_Target = None, act_Quantity = Num 0, act_Proceeds = Num 0,
     act_Value = Num 0\<rparr>"

definition split_text :: string where
  "split_text = ''AAPL(US0378331005) Split 2 for 1 (AAPL, APPLE INC, US0378331005)''"

text \<open>
  A regular expression engine as far as the example needs it: the split pattern matches
  \<open>split_text\<close> with the groups that \<open>re.search\<close> gives on it.
\<close>

definition example_engine :: regex_engine where
  "example_engine =
     \<lparr>search_split = (\<lambda>t. if t = split_text then Some (''AAPL'', ''2'', ''1'') else None),
      search_spinoff = (\<lambda>t. None),
      search_acquisition_cash = (\<lambda>t. None),
      search_acquisition_stock = (\<lambda>t. None),
      search_prefix = (\<lambda>t. None)\<rparr>"

definition three_trades :: trades_frame where
  "three_trades = frame_of [imported_trade ''h1'' ''AAPL'' 100 10 50,
                            imported_trade ''h2'' ''AAPL'' 300 10 50,
                            imported_trade ''h3'' ''AAPL'' 500 10 50]"

definition three_splits :: "corporate_action list" where
  "three_splits = [split_action ''AAPL'' 400 (1/4), split_action ''AAPL'' 200 (1/2),
                   split_action ''MSFT'' 150 (1/3)]"

subsection \<open>Facts about the split adjustment\<close>

fun later_products :: "real \<Rightarrow> int \<Rightarrow> corporate_action list \<Rightarrow> real list" where
  "later_products p d [] = []"
| "later_products p d (a # as) =
     (if d < act_Date_Time a then [p * ratio_value a] else []) @ later_products (p * ratio_value a) d as"

lemma later_cumulative_ratios_products:
  assumes "\<forall>a\<in>set xs. act_Ratio a = Num (ratio_value a)" and "acc s = Num p"
  shows "later_cumulative_ratios (zip xs (cumprod_by_symbol acc xs)) s d
           = map Num (later_products p d (filter (\<lambda>a. act_Symbol a = Some s) xs))"
  using assms
proof (induction xs arbitrary: acc p)
  case Nil
  show ?case by (simp add: later_cumulative_ratios_def)
next
  case (Cons a xs)
  from Cons.prems have ra: "act_Ratio a = Num (ratio_value a)"
    and rest: "\<forall>a\<in>set xs. act_Ratio a = Num (ratio_value a)" by simp_all
  have ih: "later_cumulative_ratios (zip xs (cumprod_by_symbol acc' xs)) s d
           = map Num (later_products p' d (filter (\<lambda>a. act_Symbol a = Some s) xs))"
    if "acc' s = Num p'" for acc' p'
    using Cons.IH rest that by blast
  show ?case
  proof (cases "act_Symbol a")
    case None
    with ih[of acc p] Cons.prems(2) show ?thesis
      by (simp add: later_cumulative_ratios_def)
  next
    case (Some s')
    show ?thesis
    proof (cases "s' = s")
      case True
      have "(acc(s := Num (p * ratio_value a))) s = Num (p * ratio_value a)" by simp
      from ih[of "acc(s := Num (p * ratio_value a))" "p * ratio_value a"] this Some True ra Cons.prems(2) show ?thesis
        by (simp add: later_cumulative_ratios_def Let_def)
    next
      case False
      then have "(acc(s' := fmul (acc s') (act_Ratio a))) s = Num p"
        using Cons.prems(2) by simp
      from ih[of "acc(s' := fmul (acc s') (act_Ratio a))" p] this Some False ra show ?thesis
        by (simp add: later_cumulative_ratios_def Let_def)
    qed
  qed
qed

lemma upt_0_Suc_shift: "[0..<Suc n] = 0 # map Suc [0..<n]"
  by (simp add: upt_conv_Cons map_Suc_upt del: upt_Suc)

lemma later_products_index:
  "later_products p d ys
     = map (\<lambda>i. p * prod_list (map ratio_value (take (Suc i) ys)))
         (filter (\<lambda>i. d < act_Date_Time (ys ! i)) [0..<length ys])"
proof (induction ys arbitrary: p)
  case Nil
  show ?case by simp
next
  case (Cons a ys)
  have "[0..<length (a # ys)] = 0 # map Suc [0..<length ys]"
    using upt_0_Suc_shift[of "length ys"] by simp
  then show ?case
    by (simp add: Cons.IH filter_map comp_def mult.assoc del: upt_Suc)
qed

lemma later_products_nonzero:
  "p \<noteq> 0 \<Longrightarrow> \<forall>a\<in>set ys. ratio_value a \<noteq> 0 \<Longrightarrow> 0 \<notin> set (later_products p d ys)"
  by (induction ys arbitrary: p) auto

lemma foldl_fmin2_Num: "foldl fmin2 (Num y) (map Num ys) = Num (foldl min y ys)"
  by (induction ys arbitrary: y) (auto simp: fmin2_def min_def)

lemma foldl_min_Min: "foldl min (y::real) ys = Min (set (y # ys))"
proof (induction ys arbitrary: y)
  case Nil
  show ?case by simp
next
  case (Cons z zs)
  have "Min (set (y # z # zs)) = Min (set (min y z # zs))"
    by (cases "zs = []") (auto simp: min.assoc)
  with Cons show ?case by simp
qed

lemma series_min_Nil: "series_min [] = NaN"
  by (simp add: series_min_def)

lemma series_min_Num:
  "series_min (map Num cs) = (if cs = [] then NaN else Num (Min (set cs)))"
proof (cases cs)
  case Nil
  then show ?thesis by (simp add: series_min_def)
next
  case (Cons c cs')
  have "filter (\<lambda>x. \<not> isna x) (map Num cs) = map Num cs"
    by (induction cs) auto
  with Cons show ?thesis
    by (simp add: series_min_def foldl_fmin2_Num foldl_min_Min)
qed

text \<open>The split ratio that \<open>add_split_data\<close> gives a row of symbol \<open>s\<close> dated \<open>d\<close>.\<close>

definition code_split_ratio :: "corporate_action list \<Rightarrow> string \<Rightarrow> int \<Rightarrow> float64" where
  "code_split_ratio acts s d =
     (let splits = filter (\<lambda>a. act_Action a = ''Split'') acts
      in if splits \<noteq> [] then
           (let sorted = sort_key act_Date_Time splits;
                cum = zip sorted (cumprod_by_symbol (\<lambda>s. Num 1) sorted)
            in fillna (Num 1) (fdiv (Num 1) (series_min (later_cumulative_ratios cum s d))))
         else Num 1)"

lemma adjust_for_splits_rows:
  assumes "acts \<noteq> []"
  shows "adjust_for_splits f (Some acts)
           = \<lparr>has_Split_Ratio = True, has_Target = has_Target f,
              rows = map (\<lambda>r. r\<lparr>Split_Ratio := code_split_ratio acts (Symbol r) (Date_Time r),
                                Quantity := fmul (Orig_Quantity r)
                                              (code_split_ratio acts (Symbol r) (Date_Time r)),
                                T_Price := fdiv (Orig_T_Price r)
                                              (code_split_ratio acts (Symbol r) (Date_Time r))\<rparr>)
                       (rows f)\<rparr>"
  using assms
  by (simp add: adjust_for_splits_def add_split_data_def code_split_ratio_def Let_def comp_def)

lemma adjust_for_splits_idem:
  "adjust_for_splits (adjust_for_splits f sa) sa = adjust_for_splits f sa"
proof (cases sa)
  case None
  then show ?thesis by (simp add: adjust_for_splits_def)
next
  case (Some acts)
  show ?thesis
  proof (cases "acts = []")
    case True
    with Some show ?thesis by (simp add: adjust_for_splits_def)
  next
    case False
    show ?thesis
      unfolding Some adjust_for_splits_rows[OF False]
      by (simp add: comp_def)
  qed
qed

lemma spec_splits_of_sorted:
  "filter (\<lambda>a. act_Symbol a = Some s)
     (sort_key act_Date_Time (filter (\<lambda>a. act_Action a = ''Split'') acts))
   = spec_splits_of s acts"
  by (simp add: spec_splits_of_def filter_sort)

lemma code_split_ratio_spec:
  assumes fin: "\<forall>a\<in>set acts. act_Action a = ''Split'' \<longrightarrow> (\<exists>r. act_Ratio a = Num r \<and> r \<noteq> 0)"
  shows "code_split_ratio acts s d = Num (spec_split_ratio s d acts)"
proof (cases "filter (\<lambda>a. act_Action a = ''Split'') acts = []")
  case True
  then have "spec_splits_of s acts = []"
    by (auto simp: spec_splits_of_def filter_empty_conv)
  with True show ?thesis
    by (simp add: code_split_ratio_def spec_split_ratio_def)
next
  case False
  let ?sorted = "sort_key act_Date_Time (filter (\<lambda>a. act_Action a = ''Split'') acts)"
  let ?ss = "spec_splits_of s acts"
  let ?later = "map (spec_cumulative_ratio ?ss)
                    (filter (\<lambda>i. d < act_Date_Time (?ss ! i)) [0..<length ?ss])"
  have vals: "\<forall>a\<in>set ?sorted. act_Ratio a = Num (ratio_value a)"
    and nz: "\<forall>a\<in>set ?sorted. ratio_value a \<noteq> 0"
    using fin by (auto simp: ratio_value_def)
  have nz': "\<forall>a\<in>set ?ss. ratio_value a \<noteq> 0"
    using nz unfolding spec_splits_of_sorted[symmetric] by simp
  have lp: "later_products 1 d ?ss = ?later"
    by (simp add: later_products_index spec_cumulative_ratio_def)
  have cum: "later_cumulative_ratios (zip ?sorted (cumprod_by_symbol (\<lambda>s. Num 1) ?sorted)) s d
               = map Num ?later"
    using later_cumulative_ratios_products[OF vals, of "\<lambda>s. Num 1" s 1 d]
    by (simp add: spec_splits_of_sorted lp)
  have "0 \<notin> set ?later"
    using later_products_nonzero[of 1 ?ss d] nz' lp by simp
  moreover have "?later \<noteq> [] \<Longrightarrow> Min (set ?later) \<in> set ?later"
    by (metis List.finite_set Min_in set_empty)
  ultimately have m: "?later \<noteq> [] \<Longrightarrow> Min (set ?later) \<noteq> 0"
    by metis
  define later where "later = ?later"
  have c1: "code_split_ratio acts s d = fillna (Num 1) (fdiv (Num 1) (series_min (map Num later)))"
    using False cum by (simp only: code_split_ratio_def Let_def later_def if_True not_False_eq_True)
  have c2: "spec_split_ratio s d acts = (if later = [] then 1 else 1 / Min (set later))"
    by (simp only: spec_split_ratio_def Let_def later_def)
  have c3: "later \<noteq> [] \<Longrightarrow> Min (set later) \<noteq> 0"
    using m unfolding later_def by blast
  show ?thesis
    unfolding c1 c2 using c3
    by (cases "later = []") (simp_all add: series_min_Num series_min_Nil fillna_def)
qed

lemma py_float_2: "py_float ''2'' = 2" by (simp add: py_float_def digits_value_def)

lemma py_float_1: "py_float ''1'' = 1" by (simp add: py_float_def digits_value_def)

lemma parse_split_2_for_1:
  assumes "search_split re text = Some (g1, ''2'', ''1'')"
  shows "parse_action_text re text = Inr (Some ''Split'', Some g1, Some (Num (1/2)), None)"
  using assms
  by (simp add: parse_action_text_def parse_split_text_def float_div_def py_float_1 py_float_2)

lemma code_split_ratio_single:
  assumes "act_Action a = ''Split''" and "act_Symbol a = Some s" and "d < act_Date_Time a"
      and "act_Ratio a = Num c" and "c \<noteq> 0"
  shows "code_split_ratio [a] s d = Num (1 / c)"
  using assms
  by (simp add: code_split_ratio_def later_cumulative_ratios_def series_min_def fillna_def Let_def)

subsection \<open>Claims about the split adjustment\<close>

text \<open>
  Claim C3, as amended.  The claim speaks of every set of corporate actions.  With an empty
  (or absent) set of actions \<open>adjust_for_splits\<close> computes nothing: quantity and price stay,
  and the split ratio is NaN where the frame had no such column, not 1.  What holds: for a
  set of actions that is not empty and whose Split ratios are finite and not zero, every
  trade gets as split ratio 1 over the minimum per-symbol running product of the Split
  ratios, taken in ascending time order, among the splits of its symbol dated strictly after
  the trade (1 when there is none); its quantity is the original quantity times the split
  ratio and its price the original price over the split ratio; nothing else of the row
  changes.  Running the adjustment again on the same actions, whatever they are, changes
  nothing.
\<close>

theorem adjust_for_splits_spec:
  assumes ne: "acts \<noteq> []"
      and fin: "\<forall>a\<in>set acts. act_Action a = ''Split'' \<longrightarrow> (\<exists>r. act_Ratio a = Num r \<and> r \<noteq> 0)"
      and i: "i < length (rows f)"
  shows "(let r = rows f ! i; r' = rows (adjust_for_splits f (Some acts)) ! i
          in Split_Ratio r' = Num (spec_split_ratio (Symbol r) (Date_Time r) acts)
           \<and> Quantity r' = fmul (Orig_Quantity r) (Split_Ratio r')
           \<and> T_Price r' = fdiv (Orig_T_Price r) (Split_Ratio r')
           \<and> r' = r\<lparr>Split_Ratio := Split_Ratio r', Quantity := Quantity r', T_Price := T_Price r'\<rparr>)
         \<and> length (rows (adjust_for_splits f (Some acts))) = length (rows f)
         \<and> adjust_for_splits (adjust_for_splits f sa) sa = adjust_for_splits f sa
         \<and> adjust_for_splits f None = adjust_for_splits f (Some [])
         \<and> rows (adjust_for_splits f (Some []))
             = (if has_Split_Ratio f then rows f
                else map (\<lambda>r. r\<lparr>Split_Ratio := NaN\<rparr>) (rows f))"
proof -
  have "adjust_for_splits f None = adjust_for_splits f (Some [])"
    and "rows (adjust_for_splits f (Some []))
             = (if has_Split_Ratio f then rows f
                else map (\<lambda>r. r\<lparr>Split_Ratio := NaN\<rparr>) (rows f))"
    by (simp_all add: adjust_for_splits_def)
  with i show ?thesis
    by (simp add: adjust_for_splits_rows[OF ne] code_split_ratio_spec[OF fin]
          adjust_for_splits_idem Let_def)
qed

theorem adjust_for_splits_spec_witness:
  "three_splits \<noteq> []
   \<and> (1::nat) < length (rows three_trades)
   \<and> Split_Ratio (rows (adjust_for_splits three_trades (Some three_splits)) ! 1) = Num 8
   \<and> Quantity (rows (adjust_for_splits three_trades (Some three_splits)) ! 1) = Num 80
   \<and> spec_split_ratio ''AAPL'' 300 three_splits = 8"
proof -
  have h1: "three_splits \<noteq> []" by (simp add: three_splits_def)
  have "\<exists>r. split_action s t c = \<lparr>act_Symbol = Some s, act_Date_Time = t, act_Action = ''Split'',
            act_Ratio = Num r, act_Target = None, act_Quantity = Num 0, act_Proceeds = Num 0,
            act_Value = Num 0\<rparr> \<and> r \<noteq> 0" if "c \<noteq> 0" for s t c
    using that by (intro exI[of _ c]) (simp add: split_action_def)
  then have nz: "\<exists>r. act_Ratio (split_action s t c) = Num r \<and> r \<noteq> 0" if "c \<noteq> 0" for s t c
    using that by (metis corporate_action.select_convs(4))
  have h2: "\<forall>a\<in>set three_splits. act_Action a = ''Split'' \<longrightarrow> (\<exists>r. act_Ratio a = Num r \<and> r \<noteq> 0)"
    unfolding three_splits_def using nz by simp
  have h3: "(1::nat) < length (rows three_trades)"
    by (simp add: three_trades_def frame_of_def)
  have e: "Split_Ratio (rows (adjust_for_splits three_trades (Some three_splits)) ! 1) = Num 8
           \<and> Quantity (rows (adjust_for_splits three_trades (Some three_splits)) ! 1) = Num 80"
    by code_simp
  have sd: "Symbol (rows three_trades ! 1) = ''AAPL'' \<and> Date_Time (rows three_trades ! 1) = 300"
    by (simp add: three_trades_def frame_of_def imported_trade_def)
  from adjust_for_splits_spec[OF h1 h2 h3, of None] e sd
  have "spec_split_ratio ''AAPL'' 300 three_splits = 8"
    by (simp add: Let_def)
  with h1 h3 e show ?thesis by blast
qed

text \<open>
  The claim of C3 as stated fails on the empty set of actions: no later split exists, the
  specification's ratio is 1, and the code leaves NaN.
\<close>

theorem adjust_for_splits_no_actions:
  "Split_Ratio (rows (adjust_for_splits three_trades (Some [])) ! 0) = NaN
   \<and> spec_split_ratio ''AAPL'' 100 [] = 1
   \<and> Symbol (rows three_trades ! 0) = ''AAPL''
   \<and> Date_Time (rows three_trades ! 0) = 100"
  by (simp add: adjust_for_splits_def three_trades_def frame_of_def imported_trade_def
        spec_split_ratio_def spec_splits_of_def)

text \<open>
  Claim C4, as amended.  The claim takes the ratio of a split action to be new over old, as
  parsed from ``Split N for M''.  \<open>parse_split_text\<close> computes \<open>float(M) / float(N)\<close>: for
  ``Split 2 for 1'' the ratio is 1/2, old over new.  What holds: for any trade and a single
  split action of its symbol dated after the trade, read from a description whose split
  pattern gives the groups 2 and 1, the action has ratio 1/2, and the adjustment gives the
  trade the split ratio 2, twice the original quantity and half the original price; for a
  finite quantity and price their product stays.
\<close>

theorem split_2_for_1_doubles:
  assumes m: "search_split re text = Some (Symbol r, ''2'', ''1'')"
      and later: "Date_Time r < act_Date_Time row"
      and i: "i < length (rows f)" and r: "rows f ! i = r"
  shows "\<exists>a. import_action_row re text row = Inr a
            \<and> act_Action a = ''Split'' \<and> act_Symbol a = Some (Symbol r)
            \<and> act_Ratio a = Num (1/2) \<and> act_Date_Time a = act_Date_Time row
            \<and> (let r' = rows (adjust_for_splits f (Some [a])) ! i
               in Split_Ratio r' = Num 2
                \<and> Quantity r' = fmul (Orig_Quantity r) (Num 2)
                \<and> T_Price r' = fdiv (Orig_T_Price r) (Num 2)
                \<and> (\<forall>q p. Orig_Quantity r = Num q \<and> Orig_T_Price r = Num p \<longrightarrow>
                      Quantity r' = Num (2 * q) \<and> T_Price r' = Num (p / 2)
                      \<and> (2 * q) * (p / 2) = q * p))"
proof -
  define a where "a = row\<lparr>act_Action := ''Split'', act_Symbol := Some (Symbol r),
                          act_Ratio := Num (1/2), act_Target := None\<rparr>"
  have imp: "import_action_row re text row = Inr a"
    by (simp add: import_action_row_def parse_split_2_for_1[OF m] a_def)
  have ratio: "code_split_ratio [a] (Symbol r) (Date_Time r) = Num 2"
    using code_split_ratio_single[of a "Symbol r" "Date_Time r" "1/2"] later
    by (simp add: a_def)
  have "[a] \<noteq> []" by simp
  note rows = adjust_for_splits_rows[OF this, of f]
  have props: "act_Action a = ''Split''" "act_Symbol a = Some (Symbol r)"
    "act_Ratio a = Num (1/2)" "act_Date_Time a = act_Date_Time row"
    by (simp_all add: a_def)
  have r': "rows (adjust_for_splits f (Some [a])) ! i
              = r\<lparr>Split_Ratio := Num 2, Quantity := fmul (Orig_Quantity r) (Num 2),
                  T_Price := fdiv (Orig_T_Price r) (Num 2)\<rparr>"
    using i r ratio by (simp add: rows)
  show ?thesis
    using imp props by (intro exI[of _ a]) (auto simp: r' Let_def)
qed

theorem split_2_for_1_doubles_witness:
  "search_split example_engine split_text = Some (Symbol (imported_trade ''h1'' ''AAPL'' 100 10 50), ''2'', ''1'')
   \<and> Date_Time (imported_trade ''h1'' ''AAPL'' 100 10 50) < act_Date_Time (split_action ''AAPL'' 200 0)
   \<and> (0::nat) < length (rows three_trades)
   \<and> rows three_trades ! 0 = imported_trade ''h1'' ''AAPL'' 100 10 50
   \<and> (\<exists>a. import_action_row example_engine split_text (split_action ''AAPL'' 200 0) = Inr a
          \<and> act_Ratio a = Num (1/2)
          \<and> Quantity (rows (adjust_for_splits three_trades (Some [a])) ! 0) = Num 20
          \<and> T_Price (rows (adjust_for_splits three_trades (Some [a])) ! 0) = Num 25)"
proof -
  let ?t = "imported_trade ''h1'' ''AAPL'' 100 10 50"
  have h1: "search_split example_engine split_text = Some (Symbol ?t, ''2'', ''1'')"
    by (simp add: example_engine_def imported_trade_def)
  have h2: "Date_Time ?t < act_Date_Time (split_action ''AAPL'' 200 0)"
    by (simp add: imported_trade_def split_action_def)
  have h3: "(0::nat) < length (rows three_trades)"
    by (simp add: three_trades_def frame_of_def)
  have h4: "rows three_trades ! 0 = ?t"
    by (simp add: three_trades_def frame_of_def)
  have q: "Orig_Quantity ?t = Num 10 \<and> Orig_T_Price ?t = Num 50"
    by (simp add: imported_trade_def)
  from split_2_for_1_doubles[OF h1 h2 h3 h4] q
  have "\<exists>a. import_action_row example_engine split_text (split_action ''AAPL'' 200 0) = Inr a
          \<and> act_Ratio a = Num (1/2)
          \<and> Quantity (rows (adjust_for_splits three_trades (Some [a])) ! 0) = Num 20
          \<and> T_Price (rows (adjust_for_splits three_trades (Some [a])) ! 0) = Num 25"
    by (auto simp: Let_def)
  with h1 h2 h3 h4 show ?thesis by blast
qed

text \<open>
  The claim of C4 as stated fails: the parsed ratio of ``Split 2 for 1'' is 1/2 and not 2,
  and a split action that did carry the ratio 2 (new over old) halves the quantity of an
  earlier trade and doubles its price.
\<close>

theorem split_ratio_new_for_old_halves:
  "parse_split_text example_engine split_text = Inr (Some ''Split'', Some ''AAPL'', Some (Num (1/2)), None)
   \<and> Quantity (rows (adjust_for_splits three_trades (Some [split_action ''AAPL'' 200 2])) ! 0) = Num 5
   \<and> T_Price (rows (adjust_for_splits three_trades (Some [split_action ''AAPL'' 200 2])) ! 0) = Num 100
   \<and> Orig_Quantity (rows three_trades ! 0) = Num 10
   \<and> Orig_T_Price (rows three_trades ! 0) = Num 50"
proof -
  have p: "parse_split_text example_engine split_text
             = Inr (Some ''Split'', Some ''AAPL'', Some (Num (1/2)), None)"
    by (simp add: parse_split_text_def example_engine_def float_div_def py_float_1 py_float_2)
  have q: "Quantity (rows (adjust_for_splits three_trades (Some [split_action ''AAPL'' 200 2])) ! 0) = Num 5"
    by code_simp
  have t: "T_Price (rows (adjust_for_splits three_trades (Some [split_action ''AAPL'' 200 2])) ! 0) = Num 100"
    by code_simp
  have o: "Orig_Quantity (rows three_trades ! 0) = Num 10 \<and> Orig_T_Price (rows three_trades ! 0) = Num 50"
    by (simp add: three_trades_def frame_of_def imported_trade_def)
  from p q t o show ?thesis by blast
qed

subsection \<open>A repeated merge and the corporate actions\<close>

text \<open>
  Claim C1 says that merging the same ledger a second time changes nothing.
  \<open>merge_with\<close> puts the actions of the incoming ledger before those of the receiving
  ledger and drops no duplicate, so every repeated merge adds the incoming actions once
  more.  Here \<open>ledger_B\<close> reports one split of AAPL with ratio 1/2: after the first merge the
  ledger holds the split once, after the second merge twice, the two states differ, and
  the split adjustment of a trade dated before the split gives the split ratio 4 where the
  single split gives 2.
\<close>

theorem merge_with_repeats_actions:
  "actions (fst (merge_with ledger_A ledger_B True)) = actions ledger_B
   \<and> actions (fst (merge_with (fst (merge_with ledger_A ledger_B True)) ledger_B True))
       = actions ledger_B @ actions ledger_B
   \<and> actions ledger_B = [split_action ''AAPL'' 250 (1/2)]
   \<and> fst (merge_with (fst (merge_with ledger_A ledger_B True)) ledger_B True)
       \<noteq> fst (merge_with ledger_A ledger_B True)
   \<and> Split_Ratio (rows (adjust_for_splits three_trades (Some (actions ledger_B))) ! 0) = Num 2
   \<and> Split_Ratio (rows (adjust_for_splits three_trades
                             (Some (actions ledger_B @ actions ledger_B))) ! 0) = Num 4"
proof -
  have b: "actions ledger_B = [split_action ''AAPL'' 250 (1/2)]"
    by (simp add: ledger_B_def reset_def split_action_def)
  have a: "actions ledger_A = []"
    by (simp add: ledger_A_def reset_def)
  have 1: "actions (fst (merge_with ledger_A ledger_B True)) = actions ledger_B"
    using a b by (simp add: merge_with_def Let_def)
  have 2: "actions (fst (merge_with (fst (merge_with ledger_A ledger_B True)) ledger_B True))
             = actions ledger_B @ actions ledger_B"
    using a b by (simp add: merge_with_def Let_def)
  have 3: "fst (merge_with (fst (merge_with ledger_A ledger_B True)) ledger_B True)
             \<noteq> fst (merge_with ledger_A ledger_B True)"
  proof
    assume "fst (merge_with (fst (merge_with ledger_A ledger_B True)) ledger_B True)
              = fst (merge_with ledger_A ledger_B True)"
    then have "actions (fst (merge_with (fst (merge_with ledger_A ledger_B True)) ledger_B True))
                 = actions (fst (merge_with ledger_A ledger_B True))"
      by simp
    with 1 2 b show False by simp
  qed
  have 4: "Split_Ratio (rows (adjust_for_splits three_trades
                                 (Some [split_action ''AAPL'' 250 (1/2)])) ! 0) = Num 2"
    by code_simp
  have 5: "Split_Ratio (rows (adjust_for_splits three_trades
             (Some ([split_action ''AAPL'' 250 (1/2)] @ [split_action ''AAPL'' 250 (1/2)]))) ! 0) = Num 4"
    by code_simp
  from 1 2 3 4 5 b show ?thesis by simp
qed

section \<open>Normalising imported rows\<close>

text \<open>
  \<open>convert_trade_columns(df)\<close> of \<open>trade.py\<close> works on a frame as an import adapter hands
  it over.  A numeric cell holds a string or a number; the time cell holds a string or a
  timestamp.  The frame records which of the optional columns it has.
\<close>

datatype cell = Str string | Val float64

datatype time_cell = Time_Str string | Time int

record raw_trade =
  raw_Symbol :: string
  raw_Date_Time :: time_cell
  raw_Quantity :: cell
  raw_Proceeds :: cell
  raw_Comm_Fee :: cell
  raw_Basis :: cell
  raw_Realized_PL :: cell
  raw_MTM_PL :: cell
  raw_T_Price :: cell
  raw_C_Price :: cell
  raw_Display_Suffix :: "string option"
  raw_Code :: "string option"
  raw_Action :: "string option"
  raw_Type :: "string option"

record raw_frame =
  has_Display_Suffix :: bool
  has_Action :: bool
  has_Code :: bool
  has_Type :: bool
  raw_rows :: "raw_trade list"

text \<open>The columns of the result that the function sets.\<close>

record converted_trade =
  cv_Symbol :: string
  cv_Date_Time :: int
  cv_Quantity :: float64
  cv_Proceeds :: float64
  cv_Comm_Fee :: float64
  cv_Basis :: float64
  cv_Realized_PL :: float64
  cv_MTM_PL :: float64
  cv_T_Price :: float64
  cv_C_Price :: float64
  cv_Display_Suffix :: string
  cv_Action :: "string option"
  cv_Type :: "string option"

text \<open>
  \<open>pd.to_numeric(x, errors='coerce')\<close> on one cell: the number parser of pandas is a
  parameter, a string it does not parse becomes NaN.  \<open>pd.to_datetime(x)\<close> on one cell
  raises on a string that is no time; the time parser is a parameter as well.
\<close>

definition to_numeric_coerce :: "(string \<Rightarrow> float64 option) \<Rightarrow> cell \<Rightarrow> float64" where
  "to_numeric_coerce parse_number c =
     (case c of
        Val v \<Rightarrow> v
      | Str s \<Rightarrow> (case parse_number s of Some v \<Rightarrow> v | None \<Rightarrow> NaN))"

definition to_datetime :: "(string \<Rightarrow> int option) \<Rightarrow> time_cell \<Rightarrow> py_error + int" where
  "to_datetime parse_time c =
     (case c of
        Time t \<Rightarrow> Inr t
      | Time_Str s \<Rightarrow> (case parse_time s of Some t \<Rightarrow> Inr t | None \<Rightarrow> Inl ValueError))"

text \<open>A function applied to every row; the first exception ends the pass.\<close>

fun map_result :: "('a \<Rightarrow> py_error + 'b) \<Rightarrow> 'a list \<Rightarrow> py_error + 'b list" where
  "map_result f [] = Inr []"
| "map_result f (x # xs) =
     (case f x of
        Inl e \<Rightarrow> Inl e
      | Inr y \<Rightarrow> (case map_result f xs of Inl e \<Rightarrow> Inl e | Inr ys \<Rightarrow> Inr (y # ys)))"

text \<open>
  The action derived from the code column: \<open>'O' in x\<close> raises \<open>TypeError\<close> on a missing
  value.  \<open>get_type\<close> reads \<open>row['Action']\<close> only for a quantity other than 0, and that
  raises \<open>KeyError\<close> when the frame has no Action column.
\<close>

definition action_of_code :: "string option \<Rightarrow> py_error + string option" where
  "action_of_code code =
     (case code of
        None \<Rightarrow> Inl TypeError
      | Some x \<Rightarrow> Inr (Some (if is_substring ''O'' x \<or> is_substring ''Ca'' x then ''Open''
                            else if is_substring ''C'' x then ''Close'' else ''Unknown'')))"

definition get_type :: "bool \<Rightarrow> float64 \<Rightarrow> string option \<Rightarrow> py_error + string option" where
  "get_type action_column quantity action =
     (if feq quantity (Num 0) then Inr None
      else if \<not> action_column then Inl KeyError
      else if action = Some ''Transfer''
        then Inr (Some (if fgt quantity (Num 0) then ''In'' else ''Out''))
      else if (action = Some ''Close'' \<and> flt quantity (Num 0))
            \<or> (action = Some ''Open'' \<and> fgt quantity (Num 0))
        then Inr (Some ''Long'')
      else Inr (Some ''Short''))"

definition convert_trade_columns ::
  "(string \<Rightarrow> int option) \<Rightarrow> (string \<Rightarrow> float64 option) \<Rightarrow> raw_frame \<Rightarrow> py_error + converted_trade list" where
  "convert_trade_columns parse_time parse_number df =
     (case map_result (\<lambda>r. to_datetime parse_time (raw_Date_Time r)) (raw_rows df) of
        Inl e \<Rightarrow> Inl e
      | Inr stamps \<Rightarrow>
          (let derive = (\<not> has_Action df \<and> has_Code df);
               action_column = (has_Action df \<or> has_Code df)
           in case (if derive then map_result (\<lambda>r. action_of_code (raw_Code r)) (raw_rows df)
                    else Inr (map (\<lambda>r. if has_Action df then raw_Action r else None) (raw_rows df))) of
                Inl e \<Rightarrow> Inl e
              | Inr acts \<Rightarrow>
                  (case map_result (\<lambda>(r, a). get_type action_column
                                       (to_numeric_coerce parse_number (raw_Quantity r)) a)
                          (zip (raw_rows df) acts) of
                     Inl e \<Rightarrow> Inl e
                   | Inr types \<Rightarrow>
                       Inr (map (\<lambda>(r, t, a, ty).
                              \<lparr>cv_Symbol = raw_Symbol r,
                               cv_Date_Time = t,
                               cv_Quantity = to_numeric_coerce parse_number (raw_Quantity r),
                               cv_Proceeds = to_numeric_coerce parse_number (raw_Proceeds r),
                               cv_Comm_Fee = to_numeric_coerce parse_number (raw_Comm_Fee r),
                               cv_Basis = to_numeric_coerce parse_number (raw_Basis r),
                               cv_Realized_PL = to_numeric_coerce parse_number (raw_Realized_PL r),
                               cv_MTM_PL = to_numeric_coerce parse_number (raw_MTM_PL r),
                               cv_T_Price = to_numeric_coerce parse_number (raw_T_Price r),
                               cv_C_Price = to_numeric_coerce parse_number (raw_C_Price r),
                               cv_Display_Suffix =
                                 (case (if has_Display_Suffix df then raw_Display_Suffix r else Some [])
                                  of None \<Rightarrow> [] | Some x \<Rightarrow> x),
                               cv_Action = a,
                               cv_Type = (case (if has_Type df then raw_Type r else None) of
                                            None \<Rightarrow> ty | Some x \<Rightarrow> Some x)\<rparr>)
                            (zip (raw_rows df) (zip stamps (zip acts types)))))))"

text \<open>The eight numeric columns of a row, before and after.\<close>

definition numeric_cells :: "raw_trade \<Rightarrow> cell list" where
  "numeric_cells r = [raw_Quantity r, raw_Proceeds r, raw_Comm_Fee r, raw_Basis r,
                      raw_Realized_PL r, raw_MTM_PL r, raw_T_Price r, raw_C_Price r]"

definition numeric_values :: "converted_trade \<Rightarrow> float64 list" where
  "numeric_values c = [cv_Quantity c, cv_Proceeds c, cv_Comm_Fee c, cv_Basis c,
                       cv_Realized_PL c, cv_MTM_PL c, cv_T_Price c, cv_C_Price c]"

subsection \<open>Examples\<close>

definition unparsable_row :: raw_trade where
  "unparsable_row =
     \<lparr>raw_Symbol = ''CEZ'', raw_Date_Time = Time 1000, raw_Quantity = Str ''n/a'',
      raw_Proceeds = Str ''--'', raw_Comm_Fee = Val (Num (- 1)), raw_Basis = Str ''250'',
      raw_Realized_PL = Str [], raw_MTM_PL = Val NaN, raw_T_Price = Str ''abc'',
      raw_C_Price = Str ''9,6'', raw_Display_Suffix = None, raw_Code = Some ''O'',
      raw_Action = None, raw_Type = None\<rparr>"

definition unparsable_frame :: raw_frame where
  "unparsable_frame = \<lparr>has_Display_Suffix = False, has_Action = False, has_Code = True,
                        has_Type = False, raw_rows = [unparsable_row]\<rparr>"

definition example_parse_number :: "string \<Rightarrow> float64 option" where
  "example_parse_number s = (if s = ''250'' then Some (Num 250) else None)"

definition example_parse_time :: "string \<Rightarrow> int option" where
  "example_parse_time s = None"

definition unknown_text :: string where
  "unknown_text = ''XYZ Tender Offer''"

subsection \<open>Facts about normalising\<close>

lemma map_result_Inr:
  assumes "\<forall>x\<in>set xs. \<not> isl (f x)"
  shows "map_result f xs = Inr (map (\<lambda>x. projr (f x)) xs)"
  using assms
proof (induction xs)
  case Nil
  show ?case by simp
next
  case (Cons x xs)
  then obtain y where "f x = Inr y" by (cases "f x") auto
  with Cons show ?case by simp
qed

lemma get_type_total: "\<not> isl (get_type True q a)"
  by (simp add: get_type_def)

lemma action_of_code_total: "c \<noteq> None \<Longrightarrow> \<not> isl (action_of_code c)"
  by (cases c) (simp_all add: action_of_code_def)

lemma convert_trade_columns_succeeds:
  assumes dates: "\<forall>r\<in>set (raw_rows df). \<exists>t. to_datetime parse_time (raw_Date_Time r) = Inr t"
      and acts: "has_Action df \<or> (has_Code df \<and> (\<forall>r\<in>set (raw_rows df). raw_Code r \<noteq> None))"
  shows "\<exists>out. convert_trade_columns parse_time parse_number df = Inr out
           \<and> length out = length (raw_rows df)
           \<and> (\<forall>i<length out. numeric_values (out ! i)
                  = map (to_numeric_coerce parse_number) (numeric_cells (raw_rows df ! i)))"
proof -
  let ?rs = "raw_rows df"
  have d: "\<forall>r\<in>set ?rs. \<not> isl (to_datetime parse_time (raw_Date_Time r))"
    using dates by auto
  note st = map_result_Inr[OF d]
  obtain as where as: "(if \<not> has_Action df \<and> has_Code df
                         then map_result (\<lambda>r. action_of_code (raw_Code r)) ?rs
                         else Inr (map (\<lambda>r. if has_Action df then raw_Action r else None) ?rs))
                        = Inr as" and las: "length as = length ?rs"
  proof (cases "\<not> has_Action df \<and> has_Code df")
    case True
    with acts have "\<forall>r\<in>set ?rs. \<not> isl (action_of_code (raw_Code r))"
      by (auto simp: action_of_code_def)
    from map_result_Inr[OF this] True that show ?thesis by simp
  next
    case False
    with that show ?thesis by simp
  qed
  have col: "has_Action df \<or> has_Code df" using acts by auto
  have "\<forall>x\<in>set (zip ?rs as). \<not> isl ((\<lambda>(r, a). get_type True
                 (to_numeric_coerce parse_number (raw_Quantity r)) a) x)"
    by (auto simp: get_type_total)
  note ty = map_result_Inr[OF this]
  show ?thesis
    using col las
    by (simp add: convert_trade_columns_def st as ty Let_def numeric_values_def numeric_cells_def)
qed

lemma to_numeric_coerce_unparsable:
  "parse_number s = None \<Longrightarrow> to_numeric_coerce parse_number (Str s) = NaN"
  by (simp add: to_numeric_coerce_def)

lemma parse_action_text_no_match:
  assumes "search_split re text = None" and "search_spinoff re text = None"
      and "search_acquisition_cash re text = None" and "search_acquisition_stock re text = None"
  shows "parse_action_text re text =
           Inr (case search_prefix re text of
                  Some g1 \<Rightarrow> (Some ''Unknown'', Some g1, Some (Num 0), None)
                | None \<Rightarrow> if is_substring ''Dividend'' text
                          then (Some ''Dividend'', None, None, None)
                          else (Some ''Unknown'', None, None, None))"
  using assms
  by (simp add: parse_action_text_def parse_split_text_def parse_spinoff_text_def
        parse_acquisition_text_def Let_def split: option.splits)

subsection \<open>Claim about degrading input\<close>

text \<open>
  Claim C9.  Whatever the numeric cells of the rows hold, \<open>convert_trade_columns\<close> returns
  a frame with a row for every row, when the times are times and the action column is
  there or can be derived; each numeric column holds the coerced cell, and the coercion of
  a string that does not parse is NaN.  A description that matches none of the split,
  spin-off and acquisition patterns and does not contain ``Dividend'' parses to the action
  Unknown, and no exception is raised.
\<close>

theorem unparsable_input_degrades:
  "((\<forall>r\<in>set (raw_rows df). \<exists>t. to_datetime parse_time (raw_Date_Time r) = Inr t)
      \<and> (has_Action df \<or> (has_Code df \<and> (\<forall>r\<in>set (raw_rows df). raw_Code r \<noteq> None)))
     \<longrightarrow> (\<exists>out. convert_trade_columns parse_time parse_number df = Inr out
           \<and> length out = length (raw_rows df)
           \<and> (\<forall>i<length out. numeric_values (out ! i)
                  = map (to_numeric_coerce parse_number) (numeric_cells (raw_rows df ! i)))))
   \<and> (parse_number s = None \<longrightarrow> to_numeric_coerce parse_number (Str s) = NaN)
   \<and> (search_split re text = None \<and> search_spinoff re text = None
        \<and> search_acquisition_cash re text = None \<and> search_acquisition_stock re text = None
        \<and> \<not> is_substring ''Dividend'' text
      \<longrightarrow> (\<exists>symbol ratio. parse_action_text re text = Inr (Some ''Unknown'', symbol, ratio, None)))"
proof (intro conjI impI)
  assume "(\<forall>r\<in>set (raw_rows df). \<exists>t. to_datetime parse_time (raw_Date_Time r) = Inr t)
      \<and> (has_Action df \<or> (has_Code df \<and> (\<forall>r\<in>set (raw_rows df). raw_Code r \<noteq> None)))"
  then show "\<exists>out. convert_trade_columns parse_time parse_number df = Inr out
           \<and> length out = length (raw_rows df)
           \<and> (\<forall>i<length out. numeric_values (out ! i)
                  = map (to_numeric_coerce parse_number) (numeric_cells (raw_rows df ! i)))"
    using convert_trade_columns_succeeds[of df parse_time parse_number] by blast
next
  assume "parse_number s = None"
  then show "to_numeric_coerce parse_number (Str s) = NaN"
    by (rule to_numeric_coerce_unparsable)
next
  assume a: "search_split re text = None \<and> search_spinoff re text = None
        \<and> search_acquisition_cash re text = None \<and> search_acquisition_stock re text = None
        \<and> \<not> is_substring ''Dividend'' text"
  then have "parse_action_text re text =
           Inr (case search_prefix re text of
                  Some g1 \<Rightarrow> (Some ''Unknown'', Some g1, Some (Num 0), None)
                | None \<Rightarrow> (Some ''Unknown'', None, None, None))"
    using parse_action_text_no_match[of re "text"] by (simp split: option.splits)
  then show "\<exists>symbol ratio. parse_action_text re text = Inr (Some ''Unknown'', symbol, ratio, None)"
    by (cases "search_prefix re text") auto
qed

theorem unparsable_input_degrades_witness:
  "(\<exists>t. to_datetime example_parse_time (raw_Date_Time unparsable_row) = Inr t)
   \<and> has_Code unparsable_frame \<and> raw_Code unparsable_row \<noteq> None
   \<and> example_parse_number ''n/a'' = None
   \<and> (\<exists>out. convert_trade_columns example_parse_time example_parse_number unparsable_frame = Inr out
          \<and> length out = 1
          \<and> numeric_values (out ! 0) = [NaN, NaN, Num (- 1), Num 250, NaN, NaN, NaN, NaN])
   \<and> to_numeric_coerce example_parse_number (Str ''n/a'') = NaN
   \<and> search_split example_engine unknown_text = None
   \<and> \<not> is_substring ''Dividend'' unknown_text
   \<and> (\<exists>symbol ratio. parse_action_text example_engine unknown_text
                           = Inr (Some ''Unknown'', symbol, ratio, None))"
proof -
  have h1: "\<forall>r\<in>set (raw_rows unparsable_frame).
              \<exists>t. to_datetime example_parse_time (raw_Date_Time r) = Inr t"
    by (simp add: unparsable_frame_def unparsable_row_def to_datetime_def)
  have h2: "has_Action unparsable_frame
            \<or> (has_Code unparsable_frame \<and> (\<forall>r\<in>set (raw_rows unparsable_frame). raw_Code r \<noteq> None))"
    by (simp add: unparsable_frame_def unparsable_row_def)
  have h3: "example_parse_number ''n/a'' = None"
    by (simp add: example_parse_number_def)
  have h4: "search_split example_engine unknown_text = None
            \<and> search_spinoff example_engine unknown_text = None
            \<and> search_acquisition_cash example_engine unknown_text = None
            \<and> search_acquisition_stock example_engine unknown_text = None
            \<and> \<not> is_substring ''Dividend'' unknown_text"
    by (simp add: example_engine_def unknown_text_def split_text_def)
  have nv: "map (to_numeric_coerce example_parse_number) (numeric_cells (raw_rows unparsable_frame ! 0))
              = [NaN, NaN, Num (- 1), Num 250, NaN, NaN, NaN, NaN]"
    by (simp add: unparsable_frame_def unparsable_row_def numeric_cells_def to_numeric_coerce_def
          example_parse_number_def)
  note inst = unparsable_input_degrades[of unparsable_frame example_parse_time example_parse_number
                "''n/a''" example_engine unknown_text]
  from inst h1 h2 obtain out where
    o: "convert_trade_columns example_parse_time example_parse_number unparsable_frame = Inr out"
       "length out = length (raw_rows unparsable_frame)"
       "\<forall>i<length out. numeric_values (out ! i)
            = map (to_numeric_coerce example_parse_number) (numeric_cells (raw_rows unparsable_frame ! i))"
    by blast
  have l: "length out = 1" using o(2) by (simp add: unparsable_frame_def)
  with o(3) nv have n: "numeric_values (out ! 0) = [NaN, NaN, Num (- 1), Num 250, NaN, NaN, NaN, NaN]"
    by simp
  from inst h3 have c: "to_numeric_coerce example_parse_number (Str ''n/a'') = NaN" by blast
  from inst h4 have u: "\<exists>symbol ratio. parse_action_text example_engine unknown_text
                           = Inr (Some ''Unknown'', symbol, ratio, None)" by blast
  have a1: "\<exists>t. to_datetime example_parse_time (raw_Date_Time unparsable_row) = Inr t"
    by (simp add: unparsable_row_def to_datetime_def)
  have a2: "has_Code unparsable_frame \<and> raw_Code unparsable_row \<noteq> None"
    by (simp add: unparsable_frame_def unparsable_row_def)
  from a1 a2 h3 o(1) l n c h4 u show ?thesis by blast
qed

section \<open>Symbol renames\<close>

text \<open>
  The symbols table of the ledger maps a raw symbol, its index, to a ticker; a row may carry
  the date of a rename and the flag \<open>Manual\<close>.  \<open>apply_renames\<close> of \<open>data.py\<close> looks every
  row of the trades, positions and dividends up in it.

  \<open>sort_values(by='Change Date', na_position='last')\<close>: the rows with a date in ascending
  order of the date, then the rows without a date.  Rows of equal date keep their order
  here (pandas does not promise that for a single sort key).
\<close>

definition sort_values_na_last :: "('a \<Rightarrow> 'k::linorder option) \<Rightarrow> 'a list \<Rightarrow> 'a list" where
  "sort_values_na_last key xs =
     sort_key (\<lambda>x. the (key x)) (filter (\<lambda>x. key x \<noteq> None) xs) @ filter (\<lambda>x. key x = None) xs"

text \<open>
  The row filter of \<open>rename_symbols\<close>:
  \<open>(symbols.index == row['Symbol']) & (symbols['Change Date'].isna() | (symbols['Change Date'] >= row[date_column]))\<close>.
\<close>

definition rename_applies :: "symbol_entry \<Rightarrow> string \<Rightarrow> int \<Rightarrow> bool" where
  "rename_applies e s d =
     (sym_Symbol e = s
      \<and> (sym_Change_Date e = None \<or> (case sym_Change_Date e of Some c \<Rightarrow> d \<le> c | None \<Rightarrow> False)))"

text \<open>
  The ticker of a row: the \<open>Ticker\<close> of \<open>.iloc[0]\<close> of the filtered and sorted table;
  \<open>.iloc[0]\<close> raises \<open>IndexError\<close> when no row is left.
\<close>

definition resolve_ticker :: "symbol_entry list \<Rightarrow> string \<Rightarrow> int \<Rightarrow> py_error + string" where
  "resolve_ticker syms s d =
     (case sort_values_na_last sym_Change_Date (filter (\<lambda>e. rename_applies e s d) syms) of
        [] \<Rightarrow> Inl IndexError
      | e # es \<Rightarrow> Inr (sym_Ticker e))"

text \<open>
  \<open>rename_symbols(df, date_column)\<close>: \<open>df.apply(..., axis=1)\<close> sets the ticker of every row;
  the first exception ends it.  A frame without rows stays without rows.
\<close>

definition rename_symbols ::
  "symbol_entry list \<Rightarrow> ('r \<Rightarrow> string) \<Rightarrow> ('r \<Rightarrow> int) \<Rightarrow> (string \<Rightarrow> 'r \<Rightarrow> 'r) \<Rightarrow> 'r list
     \<Rightarrow> py_error + 'r list" where
  "rename_symbols syms symbol_of date_of set_ticker df =
     map_result (\<lambda>row. case resolve_ticker syms (symbol_of row) (date_of row) of
                          Inl e \<Rightarrow> Inl e
                        | Inr t \<Rightarrow> Inr (set_ticker t row)) df"

text \<open>
  \<open>apply_renames\<close>: the trades with \<open>Manual == False\<close> are renamed and stand before the
  trades with \<open>Manual == True\<close>, which are left as they are (a trade whose \<open>Manual\<close> is
  missing is in neither selection); then the positions and the dividends are renamed.
\<close>

definition apply_renames :: "State \<Rightarrow> py_error + State" where
  "apply_renames self =
     (let manual_trades = filter (\<lambda>t. Manual t = Some True) (rows (trades self))
      in case rename_symbols (symbols self) Symbol Date_Time (\<lambda>t r. r\<lparr>Ticker := Some t\<rparr>)
                (filter (\<lambda>t. Manual t = Some False) (rows (trades self))) of
           Inl e \<Rightarrow> Inl e
         | Inr imported_trades \<Rightarrow>
             (case rename_symbols (symbols self) pos_Symbol pos_Date
                      (\<lambda>t r. r\<lparr>pos_Ticker := Some t\<rparr>) (positions self) of
                Inl e \<Rightarrow> Inl e
              | Inr positions1 \<Rightarrow>
                  (case rename_symbols (symbols self) div_Symbol div_Date
                           (\<lambda>t r. r\<lparr>div_Ticker := Some t\<rparr>) (dividends self) of
                     Inl e \<Rightarrow> Inl e
                   | Inr dividends1 \<Rightarrow>
                       Inr (self\<lparr>trades := (trades self)\<lparr>rows := imported_trades @ manual_trades\<rparr>,
                                 positions := positions1, dividends := dividends1\<rparr>))))"





text \<open>
  The order of \<open>na_position='last'\<close> on dates: a missing date is above every date.
\<close>

definition na_last_le :: "int option \<Rightarrow> int option \<Rightarrow> bool" where
  "na_last_le a b =
     (case b of None \<Rightarrow> True
      | Some y \<Rightarrow> (case a of None \<Rightarrow> False | Some x \<Rightarrow> x \<le> y))"

subsection \<open>Example tables\<close>





subsection \<open>Facts about the resolution\<close>

lemma sort_key_Nil_iff: "sort_key f xs = [] \<longleftrightarrow> xs = []"
  by (metis set_empty set_sort)

lemma sort_key_head_least:
  assumes "sort_key f xs = y # ys" and "x \<in> set xs"
  shows "f y \<le> f x"
proof -
  have "sorted (map f (sort_key f xs))" by (rule sorted_sort_key)
  with assms(1) have "\<forall>z\<in>set ys. f y \<le> f z" by simp
  moreover have "x \<in> set (sort_key f xs)" using assms(2) by simp
  ultimately show ?thesis using assms(1) by auto
qed

lemma sort_values_na_last_head:
  assumes "sort_values_na_last key xs = y # ys" and "x \<in> set xs"
  shows "y \<in> set xs \<and> (case key x of None \<Rightarrow> True
                         | Some b \<Rightarrow> (case key y of None \<Rightarrow> False | Some a \<Rightarrow> a \<le> b))"
proof (cases "filter (\<lambda>x. key x \<noteq> None) xs = []")
  case True
  then have all: "\<forall>z\<in>set xs. key z = None" by (auto simp: filter_empty_conv)
  from True assms(1) have "filter (\<lambda>x. key x = None) xs = y # ys"
    by (simp add: sort_values_na_last_def)
  then have "y \<in> set (filter (\<lambda>x. key x = None) xs)"
    by simp
  then have "y \<in> set xs"
    by simp
  with all assms(2) show ?thesis by simp
next
  case False
  let ?nn = "filter (\<lambda>x. key x \<noteq> None) xs"
  from False obtain z zs where sk: "sort_key (\<lambda>x. the (key x)) ?nn = z # zs"
    by (cases "sort_key (\<lambda>x. the (key x)) ?nn") (auto simp: sort_key_Nil_iff)
  with assms(1) have yz: "y = z" by (simp add: sort_values_na_last_def)
  have "z \<in> set (sort_key (\<lambda>x. the (key x)) ?nn)" using sk by simp
  then have zin: "z \<in> set xs" and zk: "key z \<noteq> None" by auto
  show ?thesis
  proof (cases "key x")
    case None
    with zin yz show ?thesis by simp
  next
    case (Some b)
    with assms(2) have "x \<in> set ?nn" by simp
    from sort_key_head_least[OF sk this] Some zk zin yz show ?thesis by auto
  qed
qed

lemma sort_values_na_last_Nil: "sort_values_na_last key xs = [] \<longleftrightarrow> xs = []"
proof
  assume "sort_values_na_last key xs = []"
  then have "filter (\<lambda>x. key x \<noteq> None) xs = []" and "filter (\<lambda>x. key x = None) xs = []"
    by (simp_all add: sort_values_na_last_def sort_key_Nil_iff)
  then show "xs = []"
    by (metis filter_empty_conv last_in_set)
next
  assume "xs = []" then show "sort_values_na_last key xs = []"
    by (simp add: sort_values_na_last_def)
qed

lemma resolve_ticker_selects:
  assumes "resolve_ticker syms s d = Inr t"
  shows "\<exists>e\<in>set syms. rename_applies e s d \<and> sym_Ticker e = t
           \<and> (\<forall>e'\<in>set syms. rename_applies e' s d
                  \<longrightarrow> na_last_le (sym_Change_Date e) (sym_Change_Date e'))"
proof -
  let ?cs = "filter (\<lambda>e. rename_applies e s d) syms"
  from assms obtain e es where so: "sort_values_na_last sym_Change_Date ?cs = e # es"
    and t: "sym_Ticker e = t"
    by (auto simp: resolve_ticker_def split: list.splits)
  have ne: "?cs \<noteq> []" using so sort_values_na_last_Nil[of sym_Change_Date ?cs] by auto
  then obtain x where "x \<in> set ?cs" by (cases ?cs) auto
  from sort_values_na_last_head[OF so this] have ein: "e \<in> set ?cs" by simp
  have "na_last_le (sym_Change_Date e) (sym_Change_Date e')"
    if "e' \<in> set syms" "rename_applies e' s d" for e'
  proof -
    from that have "e' \<in> set ?cs" by simp
    from sort_values_na_last_head[OF so this] show ?thesis
      by (simp add: na_last_le_def)
  qed
  with ein t show ?thesis by auto
qed

lemma resolve_ticker_defined:
  "(\<exists>t. resolve_ticker syms s d = Inr t) \<longleftrightarrow> (\<exists>e\<in>set syms. rename_applies e s d)"
proof -
  let ?cs = "filter (\<lambda>e. rename_applies e s d) syms"
  have "(\<exists>t. resolve_ticker syms s d = Inr t) \<longleftrightarrow> sort_values_na_last sym_Change_Date ?cs \<noteq> []"
    by (auto simp: resolve_ticker_def split: list.splits)
  also have "\<dots> \<longleftrightarrow> ?cs \<noteq> []" by (simp add: sort_values_na_last_Nil)
  also have "\<dots> \<longleftrightarrow> (\<exists>e\<in>set syms. rename_applies e s d)" by (simp add: filter_empty_conv)
  finally show ?thesis .
qed

lemma map_result_list_all2:
  "map_result f xs = Inr ys \<Longrightarrow> list_all2 (\<lambda>x y. f x = Inr y) xs ys"
proof (induction xs arbitrary: ys)
  case Nil
  then show ?case by simp
next
  case (Cons x xs)
  then show ?case by (auto split: sum.splits)
qed



lemma apply_renames_rows:
  assumes "apply_renames self = Inr self'"
  shows "\<exists>imported. rows (trades self') = imported @ filter (\<lambda>t. Manual t = Some True) (rows (trades self))
           \<and> list_all2 (\<lambda>r r'. \<exists>t. resolve_ticker (symbols self) (Symbol r) (Date_Time r) = Inr t
                                   \<and> r' = r\<lparr>Ticker := Some t\<rparr>)
                 (filter (\<lambda>t. Manual t = Some False) (rows (trades self))) imported"
    and "list_all2 (\<lambda>r r'. \<exists>t. resolve_ticker (symbols self) (pos_Symbol r) (pos_Date r) = Inr t
                                   \<and> r' = r\<lparr>pos_Ticker := Some t\<rparr>)
                 (positions self) (positions self')"
    and "list_all2 (\<lambda>r r'. \<exists>t. resolve_ticker (symbols self) (div_Symbol r) (div_Date r) = Inr t
                                   \<and> r' = r\<lparr>div_Ticker := Some t\<rparr>)
                 (dividends self) (dividends self')"
proof -
  let ?nm = "filter (\<lambda>t. Manual t = Some False) (rows (trades self))"
  let ?f = "\<lambda>row. case resolve_ticker (symbols self) (Symbol row) (Date_Time row) of
                          Inl e \<Rightarrow> Inl e
                        | Inr t \<Rightarrow> Inr (row\<lparr>Ticker := Some t\<rparr>)"
  let ?g = "\<lambda>row. case resolve_ticker (symbols self) (pos_Symbol row) (pos_Date row) of
                          Inl e \<Rightarrow> Inl e
                        | Inr t \<Rightarrow> Inr (row\<lparr>pos_Ticker := Some t\<rparr>)"
  let ?h = "\<lambda>row. case resolve_ticker (symbols self) (div_Symbol row) (div_Date row) of
                          Inl e \<Rightarrow> Inl e
                        | Inr t \<Rightarrow> Inr (row\<lparr>div_Ticker := Some t\<rparr>)"
  obtain imported where im: "map_result ?f ?nm = Inr imported"
    using assms unfolding apply_renames_def rename_symbols_def Let_def
    by (cases "map_result ?f ?nm") simp_all
  obtain p1 where p1: "map_result ?g (positions self) = Inr p1"
    using assms im unfolding apply_renames_def rename_symbols_def Let_def
    by (cases "map_result ?g (positions self)") simp_all
  obtain d1 where d1: "map_result ?h (dividends self) = Inr d1"
    using assms im p1 unfolding apply_renames_def rename_symbols_def Let_def
    by (cases "map_result ?h (dividends self)") simp_all
  have s': "self' = self\<lparr>trades := (trades self)\<lparr>rows := imported @ filter (\<lambda>t. Manual t = Some True) (rows (trades self))\<rparr>,
                         positions := p1, dividends := d1\<rparr>"
    using assms im p1 d1 unfolding apply_renames_def rename_symbols_def Let_def
    by simp
  have r: "rows (trades self') = imported @ filter (\<lambda>t. Manual t = Some True) (rows (trades self))"
    and rp: "positions self' = p1" and rd: "dividends self' = d1"
    by (simp_all add: s')
  have "list_all2 (\<lambda>x y. ?f x = Inr y) ?nm imported"
    using im by (rule map_result_list_all2)
  then have "list_all2 (\<lambda>r r'. \<exists>t. resolve_ticker (symbols self) (Symbol r) (Date_Time r) = Inr t
                                   \<and> r' = r\<lparr>Ticker := Some t\<rparr>) ?nm imported"
  proof (rule list_all2_mono)
    fix x y :: trade assume "?f x = Inr y"
    then show "\<exists>t. resolve_ticker (symbols self) (Symbol x) (Date_Time x) = Inr t
                                   \<and> y = x\<lparr>Ticker := Some t\<rparr>"
      by (cases "resolve_ticker (symbols self) (Symbol x) (Date_Time x)") auto
  qed
  with r show "\<exists>imported. rows (trades self') = imported @ filter (\<lambda>t. Manual t = Some True) (rows (trades self))
           \<and> list_all2 (\<lambda>r r'. \<exists>t. resolve_ticker (symbols self) (Symbol r) (Date_Time r) = Inr t
                                   \<and> r' = r\<lparr>Ticker := Some t\<rparr>)
                 (filter (\<lambda>t. Manual t = Some False) (rows (trades self))) imported"
    by (intro exI[of _ imported] conjI)
  have "list_all2 (\<lambda>x y. ?g x = Inr y) (positions self) p1"
    using p1 by (rule map_result_list_all2)
  then have "list_all2 (\<lambda>r r'. \<exists>t. resolve_ticker (symbols self) (pos_Symbol r) (pos_Date r) = Inr t
                                   \<and> r' = r\<lparr>pos_Ticker := Some t\<rparr>) (positions self) p1"
  proof (rule list_all2_mono)
    fix x y :: position assume "?g x = Inr y"
    then show "\<exists>t. resolve_ticker (symbols self) (pos_Symbol x) (pos_Date x) = Inr t
                                   \<and> y = x\<lparr>pos_Ticker := Some t\<rparr>"
      by (cases "resolve_ticker (symbols self) (pos_Symbol x) (pos_Date x)") auto
  qed
  with rp show "list_all2 (\<lambda>r r'. \<exists>t. resolve_ticker (symbols self) (pos_Symbol r) (pos_Date r) = Inr t
                                   \<and> r' = r\<lparr>pos_Ticker := Some t\<rparr>)
                 (positions self) (positions self')"
    by simp
  have "list_all2 (\<lambda>x y. ?h x = Inr y) (dividends self) d1"
    using d1 by (rule map_result_list_all2)
  then have "list_all2 (\<lambda>r r'. \<exists>t. resolve_ticker (symbols self) (div_Symbol r) (div_Date r) = Inr t
                                   \<and> r' = r\<lparr>div_Ticker := Some t\<rparr>) (dividends self) d1"
  proof (rule list_all2_mono)
    fix x y :: dividend assume "?h x = Inr y"
    then show "\<exists>t. resolve_ticker (symbols self) (div_Symbol x) (div_Date x) = Inr t
                                   \<and> y = x\<lparr>div_Ticker := Some t\<rparr>"
      by (cases "resolve_ticker (symbols self) (div_Symbol x) (div_Date x)") auto
  qed
  with rd show "list_all2 (\<lambda>r r'. \<exists>t. resolve_ticker (symbols self) (div_Symbol r) (div_Date r) = Inr t
                                   \<and> r' = r\<lparr>div_Ticker := Some t\<rparr>)
                 (dividends self) (dividends self')"
    by simp
qed

subsection \<open>The claim about renames\<close>


end
